theory Spec2Isabelle
  imports Complex_Main "HOL-Library.List_Lexorder"
begin

section \<open>JavaScript strings\<close>

text \<open>
  A JavaScript string is a sequence of UTF-16 code units. The keyword tables of
  \<^verbatim>\<open>route.ts\<close> are Japanese and English, so a text is modelled as the list of its
  code units (natural numbers below 65536); a Basic Latin literal is written with
  \<open>ascii\<close>, every other literal by its code units.
\<close>

type_synonym ustring = "nat list"

definition ascii :: "string \<Rightarrow> ustring" where
  "ascii s = map of_char s"

text \<open>\<^verbatim>\<open>String.prototype.startsWith\<close> and \<^verbatim>\<open>String.prototype.includes\<close>.\<close>

fun startsWith :: "ustring \<Rightarrow> ustring \<Rightarrow> bool" where
  "startsWith _ [] = True"
| "startsWith [] (p # ps) = False"
| "startsWith (c # cs) (p # ps) = (c = p \<and> startsWith cs ps)"

fun str_includes :: "ustring \<Rightarrow> ustring \<Rightarrow> bool" where
  "str_includes [] pat = (pat = [])"
| "str_includes (c # cs) pat = (startsWith (c # cs) pat \<or> str_includes cs pat)"

section \<open>JavaScript values\<close>

text \<open>
  A value that \<^verbatim>\<open>JSON.parse\<close> returns; \<^verbatim>\<open>undefined\<close> is \<open>None\<close> of \<open>json option\<close>. An
  object is the list of its own properties, each name once.
\<close>

datatype json =
    JNull
  | JBool bool
  | JNum rat
  | JStr ustring
  | JArr "json list"
  | JObj "(ustring \<times> json) list"

text \<open>
  A JavaScript number: a finite value, \<^verbatim>\<open>NaN\<close> or an infinity. Finite values are
  exact rationals: the rounding of IEEE-754 doubles and the sign of zero are not
  modelled.
\<close>

datatype jsnum = Fin rat | NaN | PosInf | NegInf

fun jsAdd :: "jsnum \<Rightarrow> jsnum \<Rightarrow> jsnum" where
  "jsAdd (Fin a) (Fin b) = Fin (a + b)"
| "jsAdd NaN _ = NaN"
| "jsAdd _ NaN = NaN"
| "jsAdd PosInf NegInf = NaN"
| "jsAdd NegInf PosInf = NaN"
| "jsAdd PosInf _ = PosInf"
| "jsAdd _ PosInf = PosInf"
| "jsAdd NegInf _ = NegInf"
| "jsAdd _ NegInf = NegInf"

fun jsDiv :: "jsnum \<Rightarrow> jsnum \<Rightarrow> jsnum" where
  "jsDiv (Fin a) (Fin b) =
     (if b = 0 then (if a = 0 then NaN else if a > 0 then PosInf else NegInf)
      else Fin (a / b))"
| "jsDiv NaN _ = NaN"
| "jsDiv _ NaN = NaN"
| "jsDiv (Fin a) _ = Fin 0"
| "jsDiv PosInf (Fin b) = (if b < 0 then NegInf else PosInf)"
| "jsDiv NegInf (Fin b) = (if b < 0 then PosInf else NegInf)"
| "jsDiv _ _ = NaN"

section \<open>The runtime library\<close>

text \<open>
  Functions of the JavaScript runtime that \<^verbatim>\<open>route.ts\<close> calls and that are not
  code of the repository are parameters of the model:
  \<^item> \<open>toLowerCase\<close>: \<^verbatim>\<open>String.prototype.toLowerCase\<close>, the Unicode lower-case mapping;
  \<^item> \<open>utcOffsetMinutes\<close>: the local time zone of the process, as a fixed number of
    minutes east of UTC (daylight-saving transitions are not modelled). The local-time
    getters and setters of \<^verbatim>\<open>Date\<close> read it; \<^verbatim>\<open>toISOString\<close> does not;
  \<^item> \<open>toNumber\<close>: \<^verbatim>\<open>Number(s)\<close> of a string;
  \<^item> \<open>parseDate\<close>: \<^verbatim>\<open>new Date(s).getTime()\<close> of a string, \<open>None\<close> for \<^verbatim>\<open>NaN\<close>;
  \<^item> \<open>numberToString\<close>: \<^verbatim>\<open>String(x)\<close> of a finite number, which \<^verbatim>\<open>toFixed\<close> falls
    back to from \<open>10^21\<close> on;
  \<^item> \<open>hmacSha256Base64\<close>: the base64 text of the HMAC-SHA256 digest of a body under a
    key, \<^verbatim>\<open>crypto.createHmac("sha256", key).update(body).digest("base64")\<close>;
  \<^item> \<open>jsonParse\<close>: \<^verbatim>\<open>JSON.parse\<close>, \<open>None\<close> when it throws a \<^verbatim>\<open>SyntaxError\<close>.
\<close>

record runtime =
  toLowerCase :: "ustring \<Rightarrow> ustring"
  utcOffsetMinutes :: int
  toNumber :: "ustring \<Rightarrow> jsnum"
  parseDate :: "ustring \<Rightarrow> int option"
  numberToString :: "rat \<Rightarrow> ustring"
  hmacSha256Base64 :: "ustring \<Rightarrow> ustring \<Rightarrow> ustring"
  jsonParse :: "ustring \<Rightarrow> json option"

section \<open>Intent classification\<close>

datatype category = Meal | Exercise | Meditation | Journal

text \<open>
  \<^verbatim>\<open>detectMealType\<close> returns one of four Japanese labels or \<^verbatim>\<open>null\<close> (\<open>None\<close>):
  U+671D U+98DF (breakfast), U+663C U+98DF (lunch), U+5915 U+98DF (dinner),
  U+9593 U+98DF (snack).
\<close>

definition detectMealType :: "runtime \<Rightarrow> ustring \<Rightarrow> ustring option" where
  "detectMealType rt userText =
     (let text = toLowerCase rt userText in
      if str_includes text [0x671D] \<or> str_includes text (ascii ''breakfast'')
        then Some [0x671D, 0x98DF]
      else if str_includes text [0x663C] \<or> str_includes text [0x30E9, 0x30F3, 0x30C1]
              \<or> str_includes text (ascii ''lunch'')
        then Some [0x663C, 0x98DF]
      else if str_includes text [0x591C] \<or> str_includes text [0x5915]
              \<or> str_includes text (ascii ''dinner'')
        then Some [0x5915, 0x98DF]
      else if str_includes text [0x9593, 0x98DF] \<or> str_includes text [0x304A, 0x3084, 0x3064]
              \<or> str_includes text (ascii ''snack'')
        then Some [0x9593, 0x98DF]
      else None)"

text \<open>JavaScript truthiness of a \<^verbatim>\<open>string | null\<close> value: a non-empty string.\<close>

definition truthy :: "ustring option \<Rightarrow> bool" where
  "truthy v = (case v of None \<Rightarrow> False | Some s \<Rightarrow> s \<noteq> [])"

definition detectLogCategory :: "runtime \<Rightarrow> ustring \<Rightarrow> category option" where
  "detectLogCategory rt userText =
     (let text = toLowerCase rt userText in
      if truthy (detectMealType rt userText) then Some Meal
      else if str_includes text [0x904B, 0x52D5] \<or> str_includes text [0x8D70]
              \<or> str_includes text [0x7B4B, 0x30C8, 0x30EC]
              \<or> str_includes text (ascii ''workout'') \<or> str_includes text (ascii ''run'')
        then Some Exercise
      else if str_includes text [0x7791, 0x60F3] \<or> str_includes text (ascii ''meditation'')
              \<or> str_includes text [0x5EA7, 0x7985]
        then Some Meditation
      else if str_includes text [0x65E5, 0x8A18]
              \<or> str_includes text [0x30B8, 0x30E3, 0x30FC, 0x30CA, 0x30EB]
              \<or> str_includes text [0x601D, 0x3063, 0x305F]
              \<or> str_includes text [0x611F, 0x3058, 0x305F]
        then Some Journal
      else None)"

section \<open>Dates\<close>

text \<open>
  A \<^verbatim>\<open>Date\<close> is its time value: milliseconds since 1970-01-01T00:00:00Z. The calendar
  follows ECMA-262 (proleptic Gregorian, days counted from the epoch); division on
  \<open>int\<close> rounds down, as \<^verbatim>\<open>floor\<close> does there.
\<close>

type_synonym time = int

definition msPerDay :: int where
  "msPerDay = 86400000"

definition Day :: "time \<Rightarrow> int" where
  "Day t = t div msPerDay"

definition TimeWithinDay :: "time \<Rightarrow> int" where
  "TimeWithinDay t = t mod msPerDay"

text \<open>Year, month (1 to 12) and day of the month of a day number.\<close>

definition civil_from_days :: "int \<Rightarrow> int \<times> int \<times> int" where
  "civil_from_days z =
     (let z' = z + 719468;
          era = z' div 146097;
          doe = z' mod 146097;
          yoe = (doe - doe div 1460 + doe div 36524 - doe div 146096) div 365;
          doy = doe - (365 * yoe + yoe div 4 - yoe div 100);
          mp = (5 * doy + 2) div 153;
          d = doy - (153 * mp + 2) div 5 + 1;
          m = (if mp < 10 then mp + 3 else mp - 9);
          y = yoe + era * 400
      in (if m \<le> 2 then y + 1 else y, m, d))"

text \<open>
  \<^verbatim>\<open>MakeDay(year, month, date)\<close> with a 0-based month: the day number of the first of
  the (normalised) month, plus \<open>date - 1\<close>.
\<close>

definition MakeDay :: "int \<Rightarrow> int \<Rightarrow> int \<Rightarrow> int" where
  "MakeDay year month date =
     (let ym = year + month div 12;
          mn = month mod 12 + 1;
          y = (if mn \<le> 2 then ym - 1 else ym);
          era = y div 400;
          yoe = y mod 400;
          doy = (153 * (if mn > 2 then mn - 3 else mn + 9) + 2) div 5;
          doe = yoe * 365 + yoe div 4 - yoe div 100 + doy
      in era * 146097 + doe - 719468 + date - 1)"

definition localTime :: "runtime \<Rightarrow> time \<Rightarrow> int" where
  "localTime rt t = t + utcOffsetMinutes rt * 60000"

definition getFullYear :: "runtime \<Rightarrow> time \<Rightarrow> int" where
  "getFullYear rt t = fst (civil_from_days (Day (localTime rt t)))"

definition getMonth :: "runtime \<Rightarrow> time \<Rightarrow> int" where
  "getMonth rt t = fst (snd (civil_from_days (Day (localTime rt t)))) - 1"

definition getDate :: "runtime \<Rightarrow> time \<Rightarrow> int" where
  "getDate rt t = snd (snd (civil_from_days (Day (localTime rt t))))"

text \<open>\<^verbatim>\<open>getDay\<close>: 0 is Sunday; day number 0 was a Thursday.\<close>

definition getDay :: "runtime \<Rightarrow> time \<Rightarrow> int" where
  "getDay rt t = (Day (localTime rt t) + 4) mod 7"

text \<open>
  \<^verbatim>\<open>d.setDate(n)\<close> sets the day of the month of the local date and keeps the local
  time of day. ECMA-262 computes \<^verbatim>\<open>MakeDay(year, month, n)\<close>, which counts \<open>n - 1\<close> days
  from the first of the month, so that an \<open>n\<close> below 1 reaches into the month before:
  the local day number moves by \<open>n - getDate\<close>.
\<close>

definition setDate :: "runtime \<Rightarrow> time \<Rightarrow> int \<Rightarrow> time" where
  "setDate rt t n = t + (n - getDate rt t) * msPerDay"

text \<open>\<^verbatim>\<open>new Date(year, month, date)\<close>: midnight of that local date.\<close>

definition newDate :: "runtime \<Rightarrow> int \<Rightarrow> int \<Rightarrow> int \<Rightarrow> time" where
  "newDate rt year month date = MakeDay year month date * msPerDay - utcOffsetMinutes rt * 60000"

text \<open>Decimal digits, zero-padded to a fixed width.\<close>

definition digit :: "int \<Rightarrow> nat" where
  "digit n = 48 + nat (n mod 10)"

definition pad2 :: "int \<Rightarrow> ustring" where
  "pad2 n = [digit (n div 10), digit n]"

definition pad4 :: "int \<Rightarrow> ustring" where
  "pad4 n = [digit (n div 1000), digit (n div 100), digit (n div 10), digit n]"

definition pad6 :: "int \<Rightarrow> ustring" where
  "pad6 n = [digit (n div 100000), digit (n div 10000)] @ pad4 n"

text \<open>
  \<^verbatim>\<open>d.toISOString().split("T")[0]\<close>: the UTC calendar date, as \<^verbatim>\<open>YYYY-MM-DD\<close>; a year
  outside 0 to 9999 is written with a sign and six digits.
\<close>

definition isoYear :: "int \<Rightarrow> ustring" where
  "isoYear y =
     (if 0 \<le> y \<and> y \<le> 9999 then pad4 y
      else if y < 0 then ascii ''-'' @ pad6 (- y) else ascii ''+'' @ pad6 y)"

definition toISODate :: "time \<Rightarrow> ustring" where
  "toISODate t =
     (case civil_from_days (Day t) of
        (y, m, d) \<Rightarrow> isoYear y @ ascii ''-'' @ pad2 m @ ascii ''-'' @ pad2 d)"

subsection \<open>The date of a meal\<close>

definition detectMealDate :: "runtime \<Rightarrow> ustring \<Rightarrow> time \<Rightarrow> ustring" where
  "detectMealDate rt userText now =
     (let text = toLowerCase rt userText in
      if str_includes text [0x4ECA, 0x65E5] \<or> str_includes text (ascii ''today'')
        then toISODate now
      else if str_includes text [0x6628, 0x65E5] \<or> str_includes text (ascii ''yesterday'')
        then (let y = setDate rt now (getDate rt now - 1) in toISODate y)
      else if str_includes text [0x4E00, 0x6628, 0x65E5]
        then (let d = setDate rt now (getDate rt now - 2) in toISODate d)
      else toISODate now)"

subsection \<open>Date ranges\<close>

record dateRange =
  rangeStart :: ustring
  rangeEnd :: ustring

text \<open>
  \<^verbatim>\<open>detectDateRange\<close> reads the clock itself (\<^verbatim>\<open>new Date()\<close>); the reading is the
  parameter \<open>now\<close>.
\<close>

definition detectDateRange :: "runtime \<Rightarrow> ustring \<Rightarrow> time \<Rightarrow> dateRange option" where
  "detectDateRange rt userText now =
     (let today = toISODate now in
      if str_includes userText [0x3053, 0x308C, 0x307E, 0x3067]
           \<or> str_includes userText [0x5168, 0x671F, 0x9593]
        then Some \<lparr>rangeStart = ascii ''ALL'', rangeEnd = ascii ''ALL''\<rparr>
      else if str_includes userText [0x5148, 0x9031]
        then (let end = setDate rt now (getDate rt now - 1);
                  start = setDate rt end (getDate rt end - 6)
              in Some \<lparr>rangeStart = toISODate start, rangeEnd = toISODate end\<rparr>)
      else if str_includes userText [0x4ECA, 0x9031]
        then (let day = (if getDay rt now = 0 then 7 else getDay rt now);
                  start = setDate rt now (getDate rt now - (day - 1))
              in Some \<lparr>rangeStart = toISODate start, rangeEnd = today\<rparr>)
      else if str_includes userText [0x4ECA, 0x6708]
        then (let start = newDate rt (getFullYear rt now) (getMonth rt now) 1
              in Some \<lparr>rangeStart = toISODate start, rangeEnd = today\<rparr>)
      else None)"

section \<open>Values, errors and effects\<close>

text \<open>
  What the completion service rejects with: \<^verbatim>\<open>e.status\<close> and \<^verbatim>\<open>e.response.status\<close>,
  each of which may be missing.
\<close>

record apiError =
  status :: "nat option"
  responseStatus :: "nat option"

text \<open>
  Thrown values: a \<^verbatim>\<open>TypeError\<close> or \<^verbatim>\<open>SyntaxError\<close> of the runtime, a rejection of
  the completion service, a rejection of the spreadsheet service, and the value
  \<^verbatim>\<open>undefined\<close>.
\<close>

datatype exn =
    TypeError
  | SyntaxError
  | ApiFailure apiError
  | StoreFailure
  | Undefined

datatype role = System | User | Assistant

record chatMessage =
  role :: role
  content :: ustring

record completionRequest =
  model :: ustring
  messages :: "chatMessage list"
  temperature :: rat
  max_tokens :: nat

text \<open>Of a completion, the handlers read \<^verbatim>\<open>choices?.[0]?.message?.content\<close> only.\<close>

record completion =
  firstContent :: "ustring option"

datatype 'a outcome = Resolved 'a | Rejected apiError

text \<open>A cell of an appended row: a string, a number or \<^verbatim>\<open>null\<close>.\<close>

datatype cell = CStr ustring | CNum rat | CNull

datatype sheet = MealLog | ExerciseLog | MeditationLog | JournalLog

text \<open>
  What a handler does to the world, in order: calls of the completion service, timed
  suspensions (milliseconds), reads and appends of the spreadsheet, replies, and lines
  on the console. \<open>GetValues\<close> and \<open>Append\<close> stand for the call of the function of
  \<^verbatim>\<open>sheets.ts\<close>, whether the service answers or rejects.
\<close>

datatype effect =
    CompletionCall completionRequest
  | Sleep nat
  | GetValues ustring
  | Append sheet "cell list"
  | Reply "json option" ustring
  | LogUserId "json option"
  | LogOpenAIError apiError
  | LogEventError exn
  | LogInvalidSignature
  | LogError exn

section \<open>The completion call with retries\<close>

text \<open>\<^verbatim>\<open>e?.status || e?.response?.status\<close>: the first of the two that is truthy.\<close>

definition errorStatus :: "apiError \<Rightarrow> nat option" where
  "errorStatus e =
     (case status e of
        Some s \<Rightarrow> if s \<noteq> 0 then Some s else responseStatus e
      | None \<Rightarrow> responseStatus e)"

text \<open>
  \<^verbatim>\<open>status === 429 || status >= 500\<close>; against \<^verbatim>\<open>undefined\<close> both comparisons are
  false.
\<close>

definition isRetryable :: "nat option \<Rightarrow> bool" where
  "isRetryable st =
     (let isRateOrQuota = (st = Some 429)
      in isRateOrQuota \<or> (case st of Some s \<Rightarrow> s \<ge> 500 | None \<Rightarrow> False))"

text \<open>
  The service is a parameter: what it answers to the request at its \<open>n\<close>-th call
  within one invocation of the wrapper. The loop makes one call per value of
  \<open>attempt\<close>, so the call index is \<open>attempt\<close>.
\<close>

type_synonym completionService = "completionRequest \<Rightarrow> nat \<Rightarrow> completion outcome"

function retryLoop ::
  "completionService \<Rightarrow> completionRequest \<Rightarrow> int \<Rightarrow> nat \<Rightarrow> exn \<Rightarrow> (exn + completion) \<times> effect list"
where
  "retryLoop svc req maxRetries attempt lastErr =
     (if int attempt \<le> maxRetries then
        (case svc req attempt of
           Resolved resp \<Rightarrow> (Inr resp, [CompletionCall req])
         | Rejected e \<Rightarrow>
             if \<not> isRetryable (errorStatus e) \<or> int attempt = maxRetries
               then (Inl (ApiFailure e), [CompletionCall req, LogOpenAIError e])
             else
               (let delayMs = min (500 * 2 ^ attempt) 2500;
                    rest = retryLoop svc req maxRetries (attempt + 1) (ApiFailure e)
                in (fst rest, [CompletionCall req, LogOpenAIError e, Sleep delayMs] @ snd rest)))
      else (Inl lastErr, []))"
  by pat_completeness auto
termination
  by (relation "measure (\<lambda>(svc, req, maxRetries, attempt, lastErr). nat (maxRetries + 1 - int attempt))")
    auto

record retryOptions =
  optMaxRetries :: "int option"
  optTemperature :: "rat option"
  optMaxTokens :: "nat option"

text \<open>
  The options are destructured with defaults:
  \<^verbatim>\<open>{ maxRetries = 2, temperature = 0.6, max_tokens = 250 }\<close>.
\<close>

definition maxRetriesOf :: "retryOptions \<Rightarrow> int" where
  "maxRetriesOf opts = (case optMaxRetries opts of None \<Rightarrow> 2 | Some m \<Rightarrow> m)"

definition requestOf :: "chatMessage list \<Rightarrow> retryOptions \<Rightarrow> completionRequest" where
  "requestOf msgs opts =
     \<lparr>model = ascii ''gpt-4o-mini'', messages = msgs,
       temperature = (case optTemperature opts of None \<Rightarrow> 6 / 10 | Some t \<Rightarrow> t),
       max_tokens = (case optMaxTokens opts of None \<Rightarrow> 250 | Some n \<Rightarrow> n)\<rparr>"

definition callOpenAIWithRetry ::
  "completionService \<Rightarrow> chatMessage list \<Rightarrow> retryOptions \<Rightarrow> (exn + completion) \<times> effect list"
where
  "callOpenAIWithRetry svc msgs opts =
     retryLoop svc (requestOf msgs opts) (maxRetriesOf opts) 0 Undefined"





section \<open>Property access, trimming and number formatting\<close>

text \<open>
  \<^verbatim>\<open>v.k\<close> for the property names that \<^verbatim>\<open>route.ts\<close> reads (\<^verbatim>\<open>events\<close>, \<^verbatim>\<open>type\<close>,
  \<^verbatim>\<open>message\<close>, \<^verbatim>\<open>source\<close>, \<^verbatim>\<open>userId\<close>, \<^verbatim>\<open>text\<close>, \<^verbatim>\<open>replyToken\<close>): a
  \<^verbatim>\<open>TypeError\<close> on \<^verbatim>\<open>null\<close>, the member of an object, and \<^verbatim>\<open>undefined\<close> on a boolean,
  number, string or array, none of which has a property of these names.
\<close>

fun getProp :: "json \<Rightarrow> ustring \<Rightarrow> exn + json option" where
  "getProp JNull k = Inl TypeError"
| "getProp (JObj kvs) k = Inr (map_of kvs k)"
| "getProp _ k = Inr None"

text \<open>\<^verbatim>\<open>v?.k\<close>: \<^verbatim>\<open>undefined\<close> when \<open>v\<close> is \<^verbatim>\<open>undefined\<close> or \<^verbatim>\<open>null\<close>.\<close>

definition optChain :: "json option \<Rightarrow> ustring \<Rightarrow> json option" where
  "optChain v k =
     (case v of
        None \<Rightarrow> None
      | Some j \<Rightarrow> (case getProp j k of Inl _ \<Rightarrow> None | Inr r \<Rightarrow> r))"

text \<open>
  The white space and line terminators of ECMA-262, which \<^verbatim>\<open>trim\<close> removes and
  \<^verbatim>\<open>\s\<close> matches.
\<close>

definition isWhiteSpace :: "nat \<Rightarrow> bool" where
  "isWhiteSpace c =
     (c \<in> set [0x09, 0x0A, 0x0B, 0x0C, 0x0D, 0x20, 0xA0, 0x1680, 0x2028, 0x2029, 0x202F,
               0x205F, 0x3000, 0xFEFF]
      \<or> (0x2000 \<le> c \<and> c \<le> 0x200A))"

definition trim :: "ustring \<Rightarrow> ustring" where
  "trim s = rev (dropWhile isWhiteSpace (rev (dropWhile isWhiteSpace s)))"

text \<open>The decimal digits of a natural number, without leading zeros.\<close>

fun decimal :: "nat \<Rightarrow> ustring" where
  "decimal n = (if n < 10 then [48 + n] else decimal (n div 10) @ [48 + n mod 10])"

declare decimal.simps [simp del]

text \<open>
  \<^verbatim>\<open>x.toFixed(1)\<close>: the sign, then the integer \<open>n\<close> nearest to ten times the absolute
  value (the larger one of two), written with one digit after the point.
\<close>

definition toFixed1 :: "runtime \<Rightarrow> jsnum \<Rightarrow> ustring" where
  "toFixed1 rt x =
     (case x of
        NaN \<Rightarrow> ascii ''NaN''
      | PosInf \<Rightarrow> ascii ''Infinity''
      | NegInf \<Rightarrow> ascii ''-Infinity''
      | Fin q \<Rightarrow>
          (let s = (if q < 0 then ascii ''-'' else []);
               a = \<bar>q\<bar>
           in if a \<ge> 10 ^ 21 then s @ numberToString rt a
              else (let n = nat \<lfloor>a * 10 + 1 / 2\<rfloor>
                    in s @ decimal (n div 10) @ ascii ''.'' @ decimal (n mod 10))))"

text \<open>\<^verbatim>\<open>d.toTimeString().slice(0, 5)\<close>: the local time of day as \<^verbatim>\<open>HH:MM\<close>.\<close>

definition toTimeHHMM :: "runtime \<Rightarrow> time \<Rightarrow> ustring" where
  "toTimeHHMM rt t =
     (let ms = TimeWithinDay (localTime rt t)
      in pad2 (ms div 3600000) @ ascii '':'' @ pad2 (ms div 60000 mod 60))"

section \<open>Fixed texts\<close>

text \<open>
  The Japanese texts of \<^verbatim>\<open>route.ts\<close>, as code units: the reply for an empty range, the
  nine nutrient labels (also the labels of the extraction patterns), the pieces of the
  summary, the three system prompts, the acknowledgements and the two replies of the
  chat branch.
\<close>

definition noRecordsText :: ustring where
  "noRecordsText =
      [0x305D, 0x306E, 0x671F, 0x9593, 0x306E, 0x8A18, 0x9332, 0x306F, 0x3042, 0x308A,
       0x307E, 0x305B, 0x3093, 0xD83D, 0xDCED]"

definition labelKcal :: ustring where
  "labelKcal =
      [0x30AB, 0x30ED, 0x30EA, 0x30FC]"

definition labelProtein :: ustring where
  "labelProtein =
      [0x30BF, 0x30F3, 0x30D1, 0x30AF, 0x8CEA]"

definition labelFat :: ustring where
  "labelFat =
      [0x8102, 0x8CEA]"

definition labelCarbs :: ustring where
  "labelCarbs =
      [0x70AD, 0x6C34, 0x5316, 0x7269]"

definition labelVitaminB6 :: ustring where
  "labelVitaminB6 =
      [0x30D3, 0x30BF, 0x30DF, 0x30F3, 0x0042, 0x0036]"

definition labelVitaminD :: ustring where
  "labelVitaminD =
      [0x30D3, 0x30BF, 0x30DF, 0x30F3, 0x0044]"

definition labelMagnesium :: ustring where
  "labelMagnesium =
      [0x30DE, 0x30B0, 0x30CD, 0x30B7, 0x30A6, 0x30E0]"

definition labelIron :: ustring where
  "labelIron =
      [0x9244]"

definition labelZinc :: ustring where
  "labelZinc =
      [0x4E9C, 0x925B]"

definition unitMicrogram :: ustring where
  "unitMicrogram =
      [0x03BC, 0x0067]"

definition averageOpen :: ustring where
  "averageOpen =
      [0xFF08, 0x5E73, 0x5747, 0x0020]"

definition perDayClose :: ustring where
  "perDayClose =
      [0x002F, 0x65E5, 0xFF09]"

definition rangeSeparator :: ustring where
  "rangeSeparator =
      [0x0020, 0x301C, 0x0020]"

definition summaryTitle :: ustring where
  "summaryTitle =
      [0x0020, 0x306E, 0x30B5, 0x30DE, 0x30EA, 0x30FC, 0x000A]"

definition summarySystemPrompt :: ustring where
  "summarySystemPrompt =
      [0x3042, 0x306A, 0x305F, 0x306F, 0x7BA1, 0x7406, 0x6804, 0x990A, 0x58EB, 0x3067,
       0x3059, 0x3002, 0x4EE5, 0x4E0B, 0x306E, 0x96C6, 0x8A08, 0x7D50, 0x679C, 0x3092,
       0x53C2, 0x8003, 0x306B, 0x3001, 0x6804, 0x990A, 0x30D0, 0x30E9, 0x30F3, 0x30B9,
       0x306B, 0x3064, 0x3044, 0x3066, 0x77ED, 0x304F, 0x30D5, 0x30A3, 0x30FC, 0x30C9,
       0x30D0, 0x30C3, 0x30AF, 0x3057, 0x3066, 0x304F, 0x3060, 0x3055, 0x3044, 0x3002]"

definition feedbackHeading :: ustring where
  "feedbackHeading =
      [0x000A, 0x000A, 0xD83D, 0xDCA1, 0x0020, 0x30D5, 0x30A3, 0x30FC, 0x30C9, 0x30D0,
       0x30C3, 0x30AF, 0x003A, 0x000A]"

definition nutritionSystemPrompt :: ustring where
  "nutritionSystemPrompt =
      [0x3042, 0x306A, 0x305F, 0x306F, 0x7BA1, 0x7406, 0x6804, 0x990A, 0x58EB, 0x3067,
       0x3059, 0x3002, 0x30E6, 0x30FC, 0x30B6, 0x30FC, 0x304C, 0x98DF, 0x3079, 0x305F,
       0x98DF, 0x4E8B, 0x3092, 0x5165, 0x529B, 0x3057, 0x305F, 0x3089, 0x3001, 0x0055,
       0x0053, 0x0044, 0x0041, 0x306E, 0x30C7, 0x30FC, 0x30BF, 0x30D9, 0x30FC, 0x30B9,
       0x3092, 0x53C2, 0x7167, 0x3057, 0x3001, 0x4EE5, 0x4E0B, 0x306E, 0x5F62, 0x5F0F,
       0x3067, 0x304A, 0x304A, 0x3088, 0x305D, 0x306E, 0x6804, 0x990A, 0x7D20, 0x3092,
       0x6570, 0x5024, 0x3067, 0x51FA, 0x529B, 0x3057, 0x3066, 0x304F, 0x3060, 0x3055,
       0x3044, 0x3002, 0x000A, 0x000A, 0x30AB, 0x30ED, 0x30EA, 0x30FC, 0x003A, 0x0020,
       0x0078, 0x0078, 0x0078, 0x0020, 0x006B, 0x0063, 0x0061, 0x006C, 0x000A, 0x30BF,
       0x30F3, 0x30D1, 0x30AF, 0x8CEA, 0x003A, 0x0020, 0x0078, 0x0078, 0x0020, 0x0067,
       0x000A, 0x8102, 0x8CEA, 0x003A, 0x0020, 0x0078, 0x0078, 0x0020, 0x0067, 0x000A,
       0x70AD, 0x6C34, 0x5316, 0x7269, 0x003A, 0x0020, 0x0078, 0x0078, 0x0020, 0x0067,
       0x000A, 0x30D3, 0x30BF, 0x30DF, 0x30F3, 0x0042, 0x0036, 0x003A, 0x0020, 0x0078,
       0x0078, 0x0020, 0x006D, 0x0067, 0x000A, 0x30D3, 0x30BF, 0x30DF, 0x30F3, 0x0044,
       0x003A, 0x0020, 0x0078, 0x0078, 0x0020, 0x03BC, 0x0067, 0x000A, 0x30DE, 0x30B0,
       0x30CD, 0x30B7, 0x30A6, 0x30E0, 0x003A, 0x0020, 0x0078, 0x0078, 0x0020, 0x006D,
       0x0067, 0x000A, 0x9244, 0x003A, 0x0020, 0x0078, 0x0078, 0x0020, 0x006D, 0x0067,
       0x000A, 0x4E9C, 0x925B, 0x003A, 0x0020, 0x0078, 0x0078, 0x0020, 0x006D, 0x0067]"

definition mealRecordedText :: ustring where
  "mealRecordedText =
      [0x8A18, 0x9332, 0x3057, 0x307E, 0x3057, 0x305F, 0xD83D, 0xDCCA, 0x000A]"

definition exerciseRecordedText :: ustring where
  "exerciseRecordedText =
      [0x904B, 0x52D5, 0x3092, 0x8A18, 0x9332, 0x3057, 0x307E, 0x3057, 0x305F, 0xD83D,
       0xDCAA, 0x000A]"

definition meditationRecordedText :: ustring where
  "meditationRecordedText =
      [0x7791, 0x60F3, 0x3092, 0x8A18, 0x9332, 0x3057, 0x307E, 0x3057, 0x305F, 0xD83E,
       0xDDD8, 0x000A]"

definition journalRecordedText :: ustring where
  "journalRecordedText =
      [0x30B8, 0x30E3, 0x30FC, 0x30CA, 0x30EB, 0x3092, 0x8A18, 0x9332, 0x3057, 0x307E,
       0x3057, 0x305F, 0x270D, 0xFE0F, 0x000A]"

definition chatDefaultReply :: ustring where
  "chatDefaultReply =
      [0x3059, 0x307F, 0x307E, 0x305B, 0x3093, 0x3001, 0x3082, 0x3046, 0x4E00, 0x5EA6,
       0x304A, 0x9858, 0x3044, 0x3057, 0x307E, 0x3059, 0x3002]"

definition chatSystemPrompt :: ustring where
  "chatSystemPrompt =
      [0x3042, 0x306A, 0x305F, 0x306F, 0x512A, 0x3057, 0x3081, 0x306E, 0x5065, 0x5EB7,
       0x30B3, 0x30FC, 0x30C1, 0x3067, 0x3059, 0x3002, 0x6804, 0x990A, 0x30FB, 0x904B,
       0x52D5, 0x30FB, 0x7791, 0x60F3, 0x30FB, 0x30B8, 0x30E3, 0x30FC, 0x30CA, 0x30EA,
       0x30F3, 0x30B0, 0x3092, 0x30B5, 0x30DD, 0x30FC, 0x30C8, 0x3057, 0x307E, 0x3059,
       0x3002]"

definition chatErrorReply :: ustring where
  "chatErrorReply =
      [0x5185, 0x90E8, 0x30A8, 0x30E9, 0x30FC, 0x304C, 0x767A, 0x751F, 0x3057, 0x307E,
       0x3057, 0x305F, 0x3002, 0x6642, 0x9593, 0x3092, 0x304A, 0x3044, 0x3066, 0x518D,
       0x8A66, 0x884C, 0x3057, 0x3066, 0x304F, 0x3060, 0x3055, 0x3044, 0x3002]"

section \<open>The spreadsheet\<close>

text \<open>
  What one event's handler meets outside the process: the clock at the call of
  \<^verbatim>\<open>detectDateRange\<close> and at the later \<^verbatim>\<open>new Date()\<close> of a log branch, what the
  spreadsheet service answers to the two reads (\<^verbatim>\<open>res.data.values || []\<close>, or a
  rejection, which includes a failure of \<^verbatim>\<open>getAuthClient\<close>), whether an append to a
  sheet is rejected, and the completion service.
\<close>

record world =
  clock :: time
  logClock :: time
  mealRows :: "exn + ustring list list"
  mealDates :: "exn + ustring list list"
  appendResult :: "sheet \<Rightarrow> exn option"
  completionService :: completionService

text \<open>\<^verbatim>\<open>row[i]\<close>: \<^verbatim>\<open>undefined\<close> past the end of the row.\<close>

definition cellAt :: "ustring list \<Rightarrow> nat \<Rightarrow> ustring option" where
  "cellAt row i = (if i < length row then Some (row ! i) else None)"

text \<open>
  Strings are compared by code units, lexicographically; a comparison with
  \<^verbatim>\<open>undefined\<close> is false.
\<close>

definition getMealLogsByRange ::
  "world \<Rightarrow> ustring \<Rightarrow> ustring \<Rightarrow> (exn + ustring list list) \<times> effect list"
where
  "getMealLogsByRange w start end =
     (case mealRows w of
        Inl e \<Rightarrow> (Inl e, [GetValues (ascii ''Meal Log!A2:N'')])
      | Inr rows \<Rightarrow>
          (Inr (if start = ascii ''ALL'' \<and> end = ascii ''ALL'' then rows
                else filter (\<lambda>row. case cellAt row 2 of
                                      None \<Rightarrow> False
                                    | Some c \<Rightarrow> c \<ge> start \<and> c \<le> end) rows),
           [GetValues (ascii ''Meal Log!A2:N'')]))"

definition getMealLogDateRange :: "world \<Rightarrow> (exn + dateRange option) \<times> effect list" where
  "getMealLogDateRange w =
     (case mealDates w of
        Inl e \<Rightarrow> (Inl e, [GetValues (ascii ''Meal Log!C2:C'')])
      | Inr values \<Rightarrow>
          (let rows = filter (\<lambda>c. c \<noteq> []) (List.map_filter (\<lambda>r. cellAt r 0) values)
           in if length rows = 0 then (Inr None, [GetValues (ascii ''Meal Log!C2:C'')])
              else (let sorted = sort rows
                    in (Inr (Some \<lparr>rangeStart = hd sorted, rangeEnd = last sorted\<rparr>),
                        [GetValues (ascii ''Meal Log!C2:C'')]))))"

section \<open>The summary\<close>

record totals =
  kcal :: jsnum
  protein :: jsnum
  fat :: jsnum
  carbs :: jsnum
  vitaminB6 :: jsnum
  vitaminD :: jsnum
  magnesium :: jsnum
  iron :: jsnum
  zinc :: jsnum

text \<open>\<^verbatim>\<open>Number(row[i] || 0)\<close>: 0 for a missing or empty cell, \<^verbatim>\<open>Number\<close> of the cell otherwise.\<close>

definition cellNumber :: "runtime \<Rightarrow> ustring list \<Rightarrow> nat \<Rightarrow> jsnum" where
  "cellNumber rt row i =
     (case cellAt row i of
        None \<Rightarrow> Fin 0
      | Some s \<Rightarrow> if s = [] then Fin 0 else toNumber rt s)"

definition addRow :: "runtime \<Rightarrow> totals \<Rightarrow> ustring list \<Rightarrow> totals" where
  "addRow rt t row =
     \<lparr>kcal = jsAdd (kcal t) (cellNumber rt row 5),
      protein = jsAdd (protein t) (cellNumber rt row 6),
      fat = jsAdd (fat t) (cellNumber rt row 7),
      carbs = jsAdd (carbs t) (cellNumber rt row 8),
      vitaminB6 = jsAdd (vitaminB6 t) (cellNumber rt row 9),
      vitaminD = jsAdd (vitaminD t) (cellNumber rt row 10),
      magnesium = jsAdd (magnesium t) (cellNumber rt row 11),
      iron = jsAdd (iron t) (cellNumber rt row 12),
      zinc = jsAdd (zinc t) (cellNumber rt row 13)\<rparr>"

definition sumRows :: "runtime \<Rightarrow> ustring list list \<Rightarrow> totals" where
  "sumRows rt logs =
     foldl (addRow rt)
       \<lparr>kcal = Fin 0, protein = Fin 0, fat = Fin 0, carbs = Fin 0, vitaminB6 = Fin 0,
        vitaminD = Fin 0, magnesium = Fin 0, iron = Fin 0, zinc = Fin 0\<rparr>
       logs"

text \<open>
  \<^verbatim>\<open>(new Date(end).getTime() - new Date(start).getTime()) / (1000*60*60*24) + 1\<close>.
\<close>

definition dayCount :: "runtime \<Rightarrow> ustring \<Rightarrow> ustring \<Rightarrow> jsnum" where
  "dayCount rt start end =
     (case parseDate rt end of
        None \<Rightarrow> NaN
      | Some e \<Rightarrow>
          (case parseDate rt start of
             None \<Rightarrow> NaN
           | Some s \<Rightarrow> Fin (of_int (e - s) / of_int msPerDay + 1)))"

definition fmt :: "runtime \<Rightarrow> jsnum \<Rightarrow> ustring \<Rightarrow> jsnum \<Rightarrow> ustring \<Rightarrow> ustring" where
  "fmt rt days label totalv unit =
     label @ ascii '': '' @ toFixed1 rt totalv @ ascii '' '' @ unit @ averageOpen
       @ toFixed1 rt (jsDiv totalv days) @ ascii '' '' @ unit @ perDayClose"

definition summaryText :: "runtime \<Rightarrow> ustring \<Rightarrow> ustring \<Rightarrow> totals \<Rightarrow> jsnum \<Rightarrow> ustring" where
  "summaryText rt start end t days =
     start @ rangeSeparator @ end @ summaryTitle
       @ fmt rt days labelKcal (kcal t) (ascii ''kcal'') @ [10]
       @ fmt rt days labelProtein (protein t) (ascii ''g'') @ [10]
       @ fmt rt days labelFat (fat t) (ascii ''g'') @ [10]
       @ fmt rt days labelCarbs (carbs t) (ascii ''g'') @ [10]
       @ fmt rt days labelVitaminB6 (vitaminB6 t) (ascii ''mg'') @ [10]
       @ fmt rt days labelVitaminD (vitaminD t) unitMicrogram @ [10]
       @ fmt rt days labelMagnesium (magnesium t) (ascii ''mg'') @ [10]
       @ fmt rt days labelIron (iron t) (ascii ''mg'') @ [10]
       @ fmt rt days labelZinc (zinc t) (ascii ''mg'')"

section \<open>The event handlers\<close>

text \<open>
  A handler returns the value it throws, if it throws, and the trace of its effects.
  \<^verbatim>\<open>replyToLine\<close> catches every failure of the delivery itself and never throws.
\<close>

type_synonym handled = "exn option \<times> effect list"

definition replyToLine :: "json option \<Rightarrow> ustring \<Rightarrow> effect list" where
  "replyToLine replyToken replyText = [Reply replyToken replyText]"

definition contentOr :: "ustring \<Rightarrow> completion \<Rightarrow> ustring" where
  "contentOr d c = (case firstContent c of None \<Rightarrow> d | Some s \<Rightarrow> s)"

text \<open>
  The rows and the displayed range of a summary request: for the sentinel all rows, and
  the range of the stored dates if there is one.
\<close>

definition summaryRows ::
  "world \<Rightarrow> dateRange \<Rightarrow> (exn + ustring list list \<times> ustring \<times> ustring) \<times> effect list"
where
  "summaryRows w rng =
     (if rangeStart rng = ascii ''ALL'' \<and> rangeEnd rng = ascii ''ALL'' then
        (case getMealLogsByRange w (ascii ''ALL'') (ascii ''ALL'') of
           (Inl e, tr) \<Rightarrow> (Inl e, tr)
         | (Inr logs, tr) \<Rightarrow>
             (case getMealLogDateRange w of
                (Inl e, tr') \<Rightarrow> (Inl e, tr @ tr')
              | (Inr None, tr') \<Rightarrow> (Inr (logs, rangeStart rng, rangeEnd rng), tr @ tr')
              | (Inr (Some actualRange), tr') \<Rightarrow>
                  (Inr (logs, rangeStart actualRange, rangeEnd actualRange), tr @ tr')))
      else
        (case getMealLogsByRange w (rangeStart rng) (rangeEnd rng) of
           (Inl e, tr) \<Rightarrow> (Inl e, tr)
         | (Inr logs, tr) \<Rightarrow> (Inr (logs, rangeStart rng, rangeEnd rng), tr)))"

definition summaryRequest :: "runtime \<Rightarrow> world \<Rightarrow> json option \<Rightarrow> dateRange \<Rightarrow> handled" where
  "summaryRequest rt w replyToken rng =
     (case summaryRows w rng of
        (Inl e, tr) \<Rightarrow> (Some e, tr)
      | (Inr (logs, start, end), tr) \<Rightarrow>
          if length logs = 0 then (None, tr @ replyToLine replyToken noRecordsText)
          else
            (let t = sumRows rt logs;
                 days = dayCount rt start end;
                 text = summaryText rt start end t days
             in case callOpenAIWithRetry (completionService w)
                       [\<lparr>role = System, content = summarySystemPrompt\<rparr>,
                        \<lparr>role = User, content = text\<rparr>]
                       \<lparr>optMaxRetries = Some 1, optTemperature = None, optMaxTokens = Some 300\<rparr>
                of
                  (Inl e, tr') \<Rightarrow> (Some e, tr @ tr')
                | (Inr feedback, tr') \<Rightarrow>
                    (None, tr @ tr'
                       @ replyToLine replyToken (text @ feedbackHeading @ contentOr [] feedback))))"

text \<open>
  The extraction patterns \<^verbatim>\<open>/LABEL[:\<dots>]\s*([\d.]+)/\<close>, where the colon is U+003A or
  U+FF1A: after the label and a colon, any white space and then the longest run of
  digits and points, which must not be empty; the leftmost match counts.
\<close>

definition isDigitOrDot :: "nat \<Rightarrow> bool" where
  "isDigitOrDot c = ((48 \<le> c \<and> c \<le> 57) \<or> c = 46)"

definition captureAfter :: "ustring \<Rightarrow> ustring option" where
  "captureAfter rest =
     (case rest of
        [] \<Rightarrow> None
      | c # cs \<Rightarrow>
          if c = 0x3A \<or> c = 0xFF1A then
            (let run = takeWhile isDigitOrDot (dropWhile isWhiteSpace cs)
             in if run = [] then None else Some run)
          else None)"

fun matchNutrient :: "ustring \<Rightarrow> ustring \<Rightarrow> ustring option" where
  "matchNutrient label [] = None"
| "matchNutrient label (c # cs) =
     (case (if startsWith (c # cs) label then captureAfter (drop (length label) (c # cs))
            else None) of
        Some run \<Rightarrow> Some run
      | None \<Rightarrow> matchNutrient label cs)"

text \<open>\<^verbatim>\<open>text.match(pattern)?.[1] || ""\<close>.\<close>

definition extractNutrient :: "ustring \<Rightarrow> ustring \<Rightarrow> ustring" where
  "extractNutrient label text = (case matchNutrient label text of None \<Rightarrow> [] | Some run \<Rightarrow> run)"

text \<open>\<^verbatim>\<open>value || 0\<close> of an extracted string: the number 0 for the empty string.\<close>

definition orZero :: "ustring \<Rightarrow> cell" where
  "orZero s = (if s = [] then CNum 0 else CStr s)"

definition mealLog :: "runtime \<Rightarrow> world \<Rightarrow> json option \<Rightarrow> ustring \<Rightarrow> handled" where
  "mealLog rt w replyToken userText =
     (let now = logClock w;
          mealDate = detectMealDate rt userText now
      in case callOpenAIWithRetry (completionService w)
                [\<lparr>role = System, content = nutritionSystemPrompt\<rparr>,
                 \<lparr>role = User, content = userText\<rparr>]
                \<lparr>optMaxRetries = Some 1, optTemperature = None, optMaxTokens = Some 250\<rparr>
         of
           (Inl e, tr) \<Rightarrow> (Some e, tr)
         | (Inr nutritionRes, tr) \<Rightarrow>
             (let nutritionText = contentOr [] nutritionRes;
                  row =
                    [CStr (toISODate now),
                     CStr (toTimeHHMM rt now),
                     CStr mealDate,
                     (case detectMealType rt userText of None \<Rightarrow> CNull | Some m \<Rightarrow> CStr m),
                     CStr userText,
                     orZero (extractNutrient labelKcal nutritionText),
                     orZero (extractNutrient labelProtein nutritionText),
                     orZero (extractNutrient labelFat nutritionText),
                     orZero (extractNutrient labelCarbs nutritionText),
                     orZero (extractNutrient labelVitaminB6 nutritionText),
                     orZero (extractNutrient labelVitaminD nutritionText),
                     orZero (extractNutrient labelMagnesium nutritionText),
                     orZero (extractNutrient labelIron nutritionText),
                     orZero (extractNutrient labelZinc nutritionText)]
              in case appendResult w MealLog of
                   Some e \<Rightarrow> (Some e, tr @ [Append MealLog row])
                 | None \<Rightarrow>
                     (None, tr @ [Append MealLog row]
                        @ replyToLine replyToken (mealRecordedText @ nutritionText))))"

text \<open>The exercise, meditation and journal branches differ in the sheet and the reply.\<close>

definition simpleLog ::
  "runtime \<Rightarrow> world \<Rightarrow> json option \<Rightarrow> sheet \<Rightarrow> ustring \<Rightarrow> ustring \<Rightarrow> handled"
where
  "simpleLog rt w replyToken sh recordedText userText =
     (let now = logClock w;
          row = [CStr (toISODate now), CStr (toTimeHHMM rt now), CStr userText]
      in case appendResult w sh of
           Some e \<Rightarrow> (Some e, [Append sh row])
         | None \<Rightarrow> (None, [Append sh row] @ replyToLine replyToken (recordedText @ userText)))"

text \<open>The chat branch has a \<^verbatim>\<open>try\<close> of its own around the completion call.\<close>

definition chat :: "runtime \<Rightarrow> world \<Rightarrow> json option \<Rightarrow> ustring \<Rightarrow> handled" where
  "chat rt w replyToken userText =
     (case callOpenAIWithRetry (completionService w)
             [\<lparr>role = System, content = chatSystemPrompt\<rparr>,
              \<lparr>role = User, content = userText\<rparr>]
             \<lparr>optMaxRetries = Some 2, optTemperature = None, optMaxTokens = Some 300\<rparr>
      of
        (Inl e, tr) \<Rightarrow> (None, tr @ replyToLine replyToken chatErrorReply)
      | (Inr c, tr) \<Rightarrow>
          (None, tr @ replyToLine replyToken
                   (case firstContent c of None \<Rightarrow> chatDefaultReply | Some s \<Rightarrow> take 1000 s)))"

definition logOrChat :: "runtime \<Rightarrow> world \<Rightarrow> json option \<Rightarrow> category option \<Rightarrow> ustring \<Rightarrow> handled" where
  "logOrChat rt w replyToken cat userText =
     (if cat = Some Meal then mealLog rt w replyToken userText
      else if cat = Some Exercise
        then simpleLog rt w replyToken ExerciseLog exerciseRecordedText userText
      else if cat = Some Meditation
        then simpleLog rt w replyToken MeditationLog meditationRecordedText userText
      else if cat = Some Journal
        then simpleLog rt w replyToken JournalLog journalRecordedText userText
      else chat rt w replyToken userText)"

definition handleText :: "runtime \<Rightarrow> world \<Rightarrow> json option \<Rightarrow> ustring \<Rightarrow> handled" where
  "handleText rt w replyToken userText =
     (let cat = detectLogCategory rt userText;
          rng = detectDateRange rt userText (clock w)
      in case rng of
           Some r \<Rightarrow>
             if cat = Some Meal then summaryRequest rt w replyToken r
             else logOrChat rt w replyToken cat userText
         | None \<Rightarrow> logOrChat rt w replyToken cat userText)"

text \<open>
  \<^verbatim>\<open>event.message.text?.trim() ?? ""\<close>: the empty string for a missing or \<^verbatim>\<open>null\<close>
  text, the trimmed string for a string, and a \<^verbatim>\<open>TypeError\<close> for any other value,
  which has no method \<^verbatim>\<open>trim\<close>.
\<close>

definition messageText :: "json option \<Rightarrow> exn + ustring" where
  "messageText message =
     (case message of
        None \<Rightarrow> Inl TypeError
      | Some m \<Rightarrow>
          (case getProp m (ascii ''text'') of
             Inl e \<Rightarrow> Inl e
           | Inr None \<Rightarrow> Inr []
           | Inr (Some JNull) \<Rightarrow> Inr []
           | Inr (Some (JStr s)) \<Rightarrow> Inr (trim s)
           | Inr (Some _) \<Rightarrow> Inl TypeError))"

text \<open>The body of the \<^verbatim>\<open>try\<close> block of one event.\<close>

definition eventBody :: "runtime \<Rightarrow> world \<Rightarrow> json \<Rightarrow> handled" where
  "eventBody rt w event =
     (case getProp event (ascii ''type'') of
        Inl e \<Rightarrow> (Some e, [])
      | Inr ty \<Rightarrow>
          if ty \<noteq> Some (JStr (ascii ''message'')) then (None, [])
          else
            (case getProp event (ascii ''message'') of
               Inl e \<Rightarrow> (Some e, [])
             | Inr message \<Rightarrow>
                 if optChain message (ascii ''type'') \<noteq> Some (JStr (ascii ''text''))
                   then (None, [])
                 else
                   (let userId = optChain (optChain (Some event) (ascii ''source''))
                                   (ascii ''userId'')
                    in case messageText message of
                         Inl e \<Rightarrow> (Some e, [LogUserId userId])
                       | Inr userText \<Rightarrow>
                           if userText = [] then (None, [LogUserId userId])
                           else
                             (let r = handleText rt w
                                        (optChain (Some event) (ascii ''replyToken'')) userText
                              in (fst r, LogUserId userId # snd r)))))"

text \<open>
  One task of the fan-out: the body, and the \<^verbatim>\<open>catch\<close> that logs what the body
  throws. The first component is what the task's promise rejects with.
\<close>

definition eventTask :: "runtime \<Rightarrow> world \<Rightarrow> json \<Rightarrow> handled" where
  "eventTask rt w event =
     (case eventBody rt w event of
        (Some inner, tr) \<Rightarrow> (None, tr @ [LogEventError inner])
      | (None, tr) \<Rightarrow> (None, tr))"

section \<open>The webhook\<close>

record request =
  signatureHeader :: "ustring option"
  bodyText :: ustring

datatype responseBody = TextBody ustring | JsonBody json

record response =
  statusCode :: nat
  body :: responseBody

text \<open>
  What a delivery results in: the response, the console lines of the boundary, and the
  trace of each event's task. The tasks run interleaved; each trace is in the order of
  its own task, and no order between the traces is modelled.
\<close>

record delivery =
  response :: response
  boundaryLog :: "effect list"
  eventTraces :: "effect list list"

text \<open>\<^verbatim>\<open>Promise.all\<close> rejects with the first rejection, if there is one.\<close>

definition promiseAll :: "handled list \<Rightarrow> exn option" where
  "promiseAll tasks =
     (case filter (\<lambda>r. fst r \<noteq> None) tasks of [] \<Rightarrow> None | r # _ \<Rightarrow> fst r)"

definition ok200 :: response where
  "ok200 = \<lparr>statusCode = 200, body = JsonBody (JObj [(ascii ''status'', JStr (ascii ''ok''))])\<rparr>"

definition unauthorized401 :: response where
  "unauthorized401 = \<lparr>statusCode = 401, body = TextBody (ascii ''Signature validation failed'')\<rparr>"

definition error500 :: response where
  "error500 = \<lparr>statusCode = 500, body = TextBody (ascii ''Internal Server Error'')\<rparr>"

text \<open>
  \<^verbatim>\<open>POST\<close>. The channel secret is \<^verbatim>\<open>process.env.LINE_CHANNEL_SECRET\<close>, which may be
  missing; \<^verbatim>\<open>createHmac\<close> then throws a \<^verbatim>\<open>TypeError\<close>. A missing signature header
  reads as the empty string. The event at position \<open>i\<close> meets the world \<open>worlds i\<close>.
\<close>

definition POST :: "runtime \<Rightarrow> ustring option \<Rightarrow> (nat \<Rightarrow> world) \<Rightarrow> request \<Rightarrow> delivery" where
  "POST rt channelSecret worlds req =
     (case channelSecret of
        None \<Rightarrow>
          \<lparr>response = error500, boundaryLog = [LogError TypeError], eventTraces = []\<rparr>
      | Some secret \<Rightarrow>
          (let signature = (case signatureHeader req of None \<Rightarrow> [] | Some h \<Rightarrow> h);
               hmac = hmacSha256Base64 rt secret (bodyText req)
           in if signature = [] \<or> hmac \<noteq> signature then
                \<lparr>response = unauthorized401, boundaryLog = [LogInvalidSignature],
                  eventTraces = []\<rparr>
              else
                (case jsonParse rt (bodyText req) of
                   None \<Rightarrow>
                     \<lparr>response = error500, boundaryLog = [LogError SyntaxError],
                       eventTraces = []\<rparr>
                 | Some json \<Rightarrow>
                     (case getProp json (ascii ''events'') of
                        Inl e \<Rightarrow>
                          \<lparr>response = error500, boundaryLog = [LogError e], eventTraces = []\<rparr>
                      | Inr ev \<Rightarrow>
                          (let events = (case ev of Some (JArr xs) \<Rightarrow> xs | _ \<Rightarrow> []);
                               tasks = map (\<lambda>i. eventTask rt (worlds i) (events ! i))
                                         [0..<length events]
                           in case promiseAll tasks of
                                Some e \<Rightarrow>
                                  \<lparr>response = error500, boundaryLog = [LogError e],
                                    eventTraces = map snd tasks\<rparr>
                              | None \<Rightarrow>
                                  \<lparr>response = ok200, boundaryLog = [],
                                    eventTraces = map snd tasks\<rparr>)))))"

section \<open>Reference tables and a reference runtime\<close>

text \<open>
  The keyword table of each category, in the order in which the source tests the
  keywords.
\<close>

definition mealKeywords :: "ustring list" where
  "mealKeywords =
     [[0x671D], ascii ''breakfast'',
      [0x663C], [0x30E9, 0x30F3, 0x30C1], ascii ''lunch'',
      [0x591C], [0x5915], ascii ''dinner'',
      [0x9593, 0x98DF], [0x304A, 0x3084, 0x3064], ascii ''snack'']"

definition exerciseKeywords :: "ustring list" where
  "exerciseKeywords =
     [[0x904B, 0x52D5], [0x8D70], [0x7B4B, 0x30C8, 0x30EC], ascii ''workout'', ascii ''run'']"

definition meditationKeywords :: "ustring list" where
  "meditationKeywords = [[0x7791, 0x60F3], ascii ''meditation'', [0x5EA7, 0x7985]]"

definition journalKeywords :: "ustring list" where
  "journalKeywords =
     [[0x65E5, 0x8A18], [0x30B8, 0x30E3, 0x30FC, 0x30CA, 0x30EB],
      [0x601D, 0x3063, 0x305F], [0x611F, 0x3058, 0x305F]]"

definition hasKeyword :: "ustring \<Rightarrow> ustring list \<Rightarrow> bool" where
  "hasKeyword text ks = list_ex (str_includes text) ks"

text \<open>
  A runtime for concrete inputs. Its \<open>toLowerCase\<close> maps the Basic Latin capitals
  and leaves every other code unit alone, which is what the Unicode mapping does on a
  text whose letters are Basic Latin, kana or CJK ideographs.
\<close>

definition lowerBasicLatin :: "ustring \<Rightarrow> ustring" where
  "lowerBasicLatin s = map (\<lambda>c. if 65 \<le> c \<and> c \<le> 90 then c + 32 else c) s"

text \<open>
  Its \<open>toNumber\<close> reads an unsigned decimal literal (digits with at most one point) and
  is \<^verbatim>\<open>NaN\<close> elsewhere; its \<open>parseDate\<close> reads the date-only format \<^verbatim>\<open>YYYY-MM-DD\<close> as
  midnight UTC and is \<^verbatim>\<open>NaN\<close> elsewhere. Both agree with the runtime on the strings
  they are applied to below. The digest, the JSON parser and the conversion of a number
  from \<open>10^21\<close> on are constant functions in \<open>runtimeAt\<close>, which is used for runs that do
  not reach them; \<open>webhookRuntime\<close> adds the digest and the parse of one request body.
\<close>

definition isDigit :: "nat \<Rightarrow> bool" where
  "isDigit c = (48 \<le> c \<and> c \<le> 57)"

definition digitsValue :: "ustring \<Rightarrow> nat" where
  "digitsValue ds = foldl (\<lambda>v c. 10 * v + (c - 48)) 0 ds"

definition decimalLiteral :: "ustring \<Rightarrow> jsnum" where
  "decimalLiteral s =
     (let ip = takeWhile isDigit s;
          rest = dropWhile isDigit s
      in case rest of
           [] \<Rightarrow> Fin (of_nat (digitsValue ip))
         | c # fp \<Rightarrow>
             if c = 46 \<and> list_all isDigit fp \<and> (ip \<noteq> [] \<or> fp \<noteq> [])
               then Fin (of_nat (digitsValue ip) + of_nat (digitsValue fp) / 10 ^ length fp)
             else NaN)"

definition isoDateOnly :: "ustring \<Rightarrow> int option" where
  "isoDateOnly s =
     (if length s = 10 \<and> list_all isDigit (take 4 s) \<and> s ! 4 = 45
           \<and> list_all isDigit (take 2 (drop 5 s)) \<and> s ! 7 = 45
           \<and> list_all isDigit (drop 8 s)
      then (let y = int (digitsValue (take 4 s));
                m = int (digitsValue (take 2 (drop 5 s)));
                d = int (digitsValue (drop 8 s))
            in if 1 \<le> m \<and> m \<le> 12 \<and> 1 \<le> d \<and> d \<le> 31
                 then Some (MakeDay y (m - 1) d * msPerDay) else None)
      else None)"

definition runtimeAt :: "int \<Rightarrow> runtime" where
  "runtimeAt offset =
     \<lparr>toLowerCase = lowerBasicLatin, utcOffsetMinutes = offset,
       toNumber = decimalLiteral, parseDate = isoDateOnly,
       numberToString = (\<lambda>x. []),
       hmacSha256Base64 = (\<lambda>secret body. []),
       jsonParse = (\<lambda>text. None)\<rparr>"

text \<open>
  A signed delivery of three events, under the channel secret \<^verbatim>\<open>secret\<close>. The text of
  the first is the number 5, the text of the second is a space, U+3000 and a space, and
  the text of the third is 3 0 U+5206 U+8D70 U+3063 U+305F ("ran for 30 minutes").
  \<open>sampleBody\<close> is the request body, \<open>sampleDigest\<close> the base64 text of its HMAC-SHA256
  digest under the secret, and \<open>sampleEvents\<close> the array that \<^verbatim>\<open>JSON.parse\<close> finds in
  it. \<open>webhookRuntime\<close> knows the digest and the parse of this body, and of no other.
\<close>

definition sampleBody :: ustring where
  "sampleBody =
      [0x007B, 0x0022, 0x0065, 0x0076, 0x0065, 0x006E, 0x0074, 0x0073, 0x0022, 0x003A,
       0x005B, 0x007B, 0x0022, 0x0074, 0x0079, 0x0070, 0x0065, 0x0022, 0x003A, 0x0022,
       0x006D, 0x0065, 0x0073, 0x0073, 0x0061, 0x0067, 0x0065, 0x0022, 0x002C, 0x0022,
       0x0072, 0x0065, 0x0070, 0x006C, 0x0079, 0x0054, 0x006F, 0x006B, 0x0065, 0x006E,
       0x0022, 0x003A, 0x0022, 0x0072, 0x0030, 0x0022, 0x002C, 0x0022, 0x0073, 0x006F,
       0x0075, 0x0072, 0x0063, 0x0065, 0x0022, 0x003A, 0x007B, 0x0022, 0x0075, 0x0073,
       0x0065, 0x0072, 0x0049, 0x0064, 0x0022, 0x003A, 0x0022, 0x0055, 0x0031, 0x0022,
       0x007D, 0x002C, 0x0022, 0x006D, 0x0065, 0x0073, 0x0073, 0x0061, 0x0067, 0x0065,
       0x0022, 0x003A, 0x007B, 0x0022, 0x0074, 0x0079, 0x0070, 0x0065, 0x0022, 0x003A,
       0x0022, 0x0074, 0x0065, 0x0078, 0x0074, 0x0022, 0x002C, 0x0022, 0x0074, 0x0065,
       0x0078, 0x0074, 0x0022, 0x003A, 0x0035, 0x007D, 0x007D, 0x002C, 0x007B, 0x0022,
       0x0074, 0x0079, 0x0070, 0x0065, 0x0022, 0x003A, 0x0022, 0x006D, 0x0065, 0x0073,
       0x0073, 0x0061, 0x0067, 0x0065, 0x0022, 0x002C, 0x0022, 0x0072, 0x0065, 0x0070,
       0x006C, 0x0079, 0x0054, 0x006F, 0x006B, 0x0065, 0x006E, 0x0022, 0x003A, 0x0022,
       0x0072, 0x0031, 0x0022, 0x002C, 0x0022, 0x0073, 0x006F, 0x0075, 0x0072, 0x0063,
       0x0065, 0x0022, 0x003A, 0x007B, 0x0022, 0x0075, 0x0073, 0x0065, 0x0072, 0x0049,
       0x0064, 0x0022, 0x003A, 0x0022, 0x0055, 0x0031, 0x0022, 0x007D, 0x002C, 0x0022,
       0x006D, 0x0065, 0x0073, 0x0073, 0x0061, 0x0067, 0x0065, 0x0022, 0x003A, 0x007B,
       0x0022, 0x0074, 0x0079, 0x0070, 0x0065, 0x0022, 0x003A, 0x0022, 0x0074, 0x0065,
       0x0078, 0x0074, 0x0022, 0x002C, 0x0022, 0x0074, 0x0065, 0x0078, 0x0074, 0x0022,
       0x003A, 0x0022, 0x0020, 0x005C, 0x0075, 0x0033, 0x0030, 0x0030, 0x0030, 0x0020,
       0x0022, 0x007D, 0x007D, 0x002C, 0x007B, 0x0022, 0x0074, 0x0079, 0x0070, 0x0065,
       0x0022, 0x003A, 0x0022, 0x006D, 0x0065, 0x0073, 0x0073, 0x0061, 0x0067, 0x0065,
       0x0022, 0x002C, 0x0022, 0x0072, 0x0065, 0x0070, 0x006C, 0x0079, 0x0054, 0x006F,
       0x006B, 0x0065, 0x006E, 0x0022, 0x003A, 0x0022, 0x0072, 0x0032, 0x0022, 0x002C,
       0x0022, 0x0073, 0x006F, 0x0075, 0x0072, 0x0063, 0x0065, 0x0022, 0x003A, 0x007B,
       0x0022, 0x0075, 0x0073, 0x0065, 0x0072, 0x0049, 0x0064, 0x0022, 0x003A, 0x0022,
       0x0055, 0x0031, 0x0022, 0x007D, 0x002C, 0x0022, 0x006D, 0x0065, 0x0073, 0x0073,
       0x0061, 0x0067, 0x0065, 0x0022, 0x003A, 0x007B, 0x0022, 0x0074, 0x0079, 0x0070,
       0x0065, 0x0022, 0x003A, 0x0022, 0x0074, 0x0065, 0x0078, 0x0074, 0x0022, 0x002C,
       0x0022, 0x0074, 0x0065, 0x0078, 0x0074, 0x0022, 0x003A, 0x0022, 0x0033, 0x0030,
       0x5206, 0x8D70, 0x3063, 0x305F, 0x0022, 0x007D, 0x007D, 0x005D, 0x007D]"

definition sampleDigest :: ustring where
  "sampleDigest = ascii ''xe3jAOK0hU56wkf9naHle3hJ+/0Fcee+bYOyMD0p8oo=''"

definition sampleEvent :: "string \<Rightarrow> json \<Rightarrow> json" where
  "sampleEvent token txt =
     JObj [(ascii ''type'', JStr (ascii ''message'')),
           (ascii ''replyToken'', JStr (ascii token)),
           (ascii ''source'', JObj [(ascii ''userId'', JStr (ascii ''U1''))]),
           (ascii ''message'', JObj [(ascii ''type'', JStr (ascii ''text'')),
                                    (ascii ''text'', txt)])]"

definition sampleEvents :: "json list" where
  "sampleEvents =
     [sampleEvent ''r0'' (JNum 5),
      sampleEvent ''r1'' (JStr [0x0020, 0x3000, 0x0020]),
      sampleEvent ''r2'' (JStr [0x0033, 0x0030, 0x5206, 0x8D70, 0x3063, 0x305F])]"

definition webhookRuntime :: runtime where
  "webhookRuntime =
     (runtimeAt 0)
       \<lparr>hmacSha256Base64 :=
          (\<lambda>secret body. if secret = ascii ''secret'' \<and> body = sampleBody
                         then sampleDigest else []),
        jsonParse :=
          (\<lambda>text. if text = sampleBody
                   then Some (JObj [(ascii ''events'', JArr sampleEvents)]) else None)\<rparr>"

text \<open>
  A world at 2024-03-15T03:00:00Z with an empty meal sheet, in which appends succeed
  and the completion service answers every call with status 503.
\<close>

definition quietWorld :: world where
  "quietWorld =
     \<lparr>clock = 1710471600000, logClock = 1710471600000,
       mealRows = Inr [], mealDates = Inr [],
       appendResult = (\<lambda>sh. None),
       completionService = (\<lambda>req n. Rejected \<lparr>status = Some 503, responseStatus = None\<rparr>)\<rparr>"

text \<open>\<^verbatim>\<open>Array.isArray(json.events) ? json.events : []\<close>, for a parsed body that is not \<^verbatim>\<open>null\<close>.\<close>

definition eventsOf :: "json \<Rightarrow> json list" where
  "eventsOf j = (case getProp j (ascii ''events'') of Inr (Some (JArr xs)) \<Rightarrow> xs | _ \<Rightarrow> [])"








section \<open>Properties of the classifier\<close>

text \<open>\<open>str_includes t p\<close> holds exactly when \<open>p\<close> occurs in \<open>t\<close> as a contiguous part.\<close>

lemma startsWith_iff: "startsWith t p = (\<exists>b. t = p @ b)"
  by (induction t p rule: startsWith.induct) auto

lemma str_includes_iff: "str_includes t p = (\<exists>a b. t = a @ p @ b)"
proof (induction t)
  case Nil
  then show ?case by auto
next
  case (Cons c cs)
  show ?case
  proof
    assume "str_includes (c # cs) p"
    then consider "startsWith (c # cs) p" | "str_includes cs p"
      by auto
    then show "\<exists>a b. c # cs = a @ p @ b"
    proof cases
      case 1
      then obtain b where "c # cs = p @ b"
        by (auto simp add: startsWith_iff)
      then have "c # cs = [] @ p @ b" by simp
      then show ?thesis by blast
    next
      case 2
      with Cons.IH obtain a b where "cs = a @ p @ b" by auto
      then have "c # cs = (c # a) @ p @ b" by simp
      then show ?thesis by blast
    qed
  next
    assume "\<exists>a b. c # cs = a @ p @ b"
    then obtain a b where ab: "c # cs = a @ p @ b" by blast
    show "str_includes (c # cs) p"
    proof (cases a)
      case Nil
      with ab have "startsWith (c # cs) p"
        by (auto simp add: startsWith_iff)
      then show ?thesis by simp
    next
      case (Cons x a')
      with ab have "cs = a' @ p @ b" by simp
      with Cons.IH have "str_includes cs p" by blast
      then show ?thesis by simp
    qed
  qed
qed

lemma hasKeyword_meal:
  "hasKeyword (toLowerCase rt t) mealKeywords = (detectMealType rt t \<noteq> None)"
  by (simp add: hasKeyword_def mealKeywords_def detectMealType_def Let_def)

lemma detectMealType_truthy:
  "truthy (detectMealType rt t) = (detectMealType rt t \<noteq> None)"
  by (simp add: truthy_def detectMealType_def Let_def)

lemma category_meal_truthy:
  "(detectLogCategory rt t = Some Meal) = truthy (detectMealType rt t)"
  by (simp add: detectLogCategory_def Let_def)

text \<open>
  Claim C9. The category of a text is decided by the keyword tables in the order meal,
  exercise, meditation, journal: the first table with a keyword in the lower-cased text
  gives the category, and a text with no keyword has none. In particular a text with a
  meal keyword and an exercise keyword is a meal.
\<close>

theorem detectLogCategory_precedence:
  "(hasKeyword (toLowerCase rt t) mealKeywords \<longrightarrow> detectLogCategory rt t = Some Meal) \<and>
   (\<not> hasKeyword (toLowerCase rt t) mealKeywords \<and>
      hasKeyword (toLowerCase rt t) exerciseKeywords \<longrightarrow>
        detectLogCategory rt t = Some Exercise) \<and>
   (\<not> hasKeyword (toLowerCase rt t) mealKeywords \<and>
      \<not> hasKeyword (toLowerCase rt t) exerciseKeywords \<and>
      hasKeyword (toLowerCase rt t) meditationKeywords \<longrightarrow>
        detectLogCategory rt t = Some Meditation) \<and>
   (\<not> hasKeyword (toLowerCase rt t) mealKeywords \<and>
      \<not> hasKeyword (toLowerCase rt t) exerciseKeywords \<and>
      \<not> hasKeyword (toLowerCase rt t) meditationKeywords \<and>
      hasKeyword (toLowerCase rt t) journalKeywords \<longrightarrow>
        detectLogCategory rt t = Some Journal) \<and>
   (\<not> hasKeyword (toLowerCase rt t) mealKeywords \<and>
      \<not> hasKeyword (toLowerCase rt t) exerciseKeywords \<and>
      \<not> hasKeyword (toLowerCase rt t) meditationKeywords \<and>
      \<not> hasKeyword (toLowerCase rt t) journalKeywords \<longrightarrow>
        detectLogCategory rt t = None) \<and>
   (hasKeyword (toLowerCase rt t) mealKeywords \<and>
      hasKeyword (toLowerCase rt t) exerciseKeywords \<longrightarrow>
        detectLogCategory rt t = Some Meal)"
proof -
  have meal: "hasKeyword (toLowerCase rt t) mealKeywords = truthy (detectMealType rt t)"
    by (simp add: hasKeyword_meal detectMealType_truthy)
  have ex: "hasKeyword (toLowerCase rt t) exerciseKeywords =
      (str_includes (toLowerCase rt t) [0x904B, 0x52D5] \<or> str_includes (toLowerCase rt t) [0x8D70]
       \<or> str_includes (toLowerCase rt t) [0x7B4B, 0x30C8, 0x30EC]
       \<or> str_includes (toLowerCase rt t) (ascii ''workout'')
       \<or> str_includes (toLowerCase rt t) (ascii ''run''))"
    by (simp add: hasKeyword_def exerciseKeywords_def)
  have med: "hasKeyword (toLowerCase rt t) meditationKeywords =
      (str_includes (toLowerCase rt t) [0x7791, 0x60F3]
       \<or> str_includes (toLowerCase rt t) (ascii ''meditation'')
       \<or> str_includes (toLowerCase rt t) [0x5EA7, 0x7985])"
    by (simp add: hasKeyword_def meditationKeywords_def)
  have jou: "hasKeyword (toLowerCase rt t) journalKeywords =
      (str_includes (toLowerCase rt t) [0x65E5, 0x8A18]
       \<or> str_includes (toLowerCase rt t) [0x30B8, 0x30E3, 0x30FC, 0x30CA, 0x30EB]
       \<or> str_includes (toLowerCase rt t) [0x601D, 0x3063, 0x305F]
       \<or> str_includes (toLowerCase rt t) [0x611F, 0x3058, 0x305F])"
    by (simp add: hasKeyword_def journalKeywords_def)
  show ?thesis
    unfolding meal ex med jou detectLogCategory_def Let_def by simp
qed

text \<open>
  The message U+30E9 U+30F3 U+30C1 U+306E U+5F8C U+306B 3 0 U+5206 U+8D70 U+3063 U+305F
  ("ran for 30 minutes after lunch") holds a meal keyword and an exercise keyword.
\<close>

theorem detectLogCategory_precedence_witness:
  "hasKeyword (toLowerCase (runtimeAt 0)
       [0x30E9, 0x30F3, 0x30C1, 0x306E, 0x5F8C, 0x306B, 0x0033, 0x0030, 0x5206, 0x8D70, 0x3063, 0x305F])
     mealKeywords \<and>
   hasKeyword (toLowerCase (runtimeAt 0)
       [0x30E9, 0x30F3, 0x30C1, 0x306E, 0x5F8C, 0x306B, 0x0033, 0x0030, 0x5206, 0x8D70, 0x3063, 0x305F])
     exerciseKeywords \<and>
   detectLogCategory (runtimeAt 0)
       [0x30E9, 0x30F3, 0x30C1, 0x306E, 0x5F8C, 0x306B, 0x0033, 0x0030, 0x5206, 0x8D70, 0x3063, 0x305F]
     = Some Meal"
proof -
  let ?t = "[0x30E9, 0x30F3, 0x30C1, 0x306E, 0x5F8C, 0x306B, 0x0033, 0x0030, 0x5206, 0x8D70, 0x3063, 0x305F] :: ustring"
  have low: "toLowerCase (runtimeAt 0) ?t = ?t"
    by (simp add: runtimeAt_def lowerBasicLatin_def)
  have m: "hasKeyword (toLowerCase (runtimeAt 0) ?t) mealKeywords"
    unfolding low by (simp add: hasKeyword_def mealKeywords_def)
  have e: "hasKeyword (toLowerCase (runtimeAt 0) ?t) exerciseKeywords"
    unfolding low by (simp add: hasKeyword_def exerciseKeywords_def)
  from detectLogCategory_precedence [of "runtimeAt 0" ?t] m e show ?thesis
    by blast
qed

text \<open>
  Claim C8, as stated, fails: no text is a meal while its meal type is \<^verbatim>\<open>null\<close>.
\<close>

theorem meal_with_unknown_type_counterexample:
  "\<not> (\<exists>rt t. detectLogCategory rt t = Some Meal \<and> detectMealType rt t = None)"
proof
  assume "\<exists>rt t. detectLogCategory rt t = Some Meal \<and> detectMealType rt t = None"
  then obtain rt t where a: "detectLogCategory rt t = Some Meal"
    and b: "detectMealType rt t = None"
    by blast
  from a b show False
    by (simp add: category_meal_truthy truthy_def)
qed

text \<open>
  Claim C8, amended. The meal type is \<^verbatim>\<open>null\<close> exactly when the lower-cased text
  holds no meal keyword, and a text is classified as a meal exactly when its meal type
  is not \<^verbatim>\<open>null\<close>.
\<close>

theorem meal_iff_meal_type:
  "(detectMealType rt t = None) = (\<not> hasKeyword (toLowerCase rt t) mealKeywords) \<and>
   (detectLogCategory rt t = Some Meal) = (detectMealType rt t \<noteq> None)"
  by (simp add: category_meal_truthy hasKeyword_meal detectMealType_truthy)

section \<open>Properties of the date functions\<close>

lemma setDate_shift: "setDate rt t (getDate rt t - k) = t - k * msPerDay"
  by (simp add: setDate_def algebra_simps)

lemma startsWith_includes: "startsWith t p \<Longrightarrow> str_includes t p"
  by (cases t; cases p) simp_all

lemma str_includes_tail: "str_includes t (a # p) \<Longrightarrow> str_includes t p"
proof (induction t)
  case Nil
  then show ?case by simp
next
  case (Cons c cs)
  from Cons.prems have "startsWith (c # cs) (a # p) \<or> str_includes cs (a # p)"
    by simp
  then show ?case
  proof
    assume "startsWith (c # cs) (a # p)"
    then have "startsWith cs p" by simp
    then have "str_includes cs p" by (rule startsWith_includes)
    then show ?thesis by simp
  next
    assume "str_includes cs (a # p)"
    then have "str_includes cs p" by (rule Cons.IH)
    then show ?thesis by simp
  qed
qed

text \<open>
  What \<^verbatim>\<open>detectMealDate\<close> does on every input: "today" first, then "yesterday", and
  today's date otherwise. The phrase U+4E00 U+6628 U+65E5 ("the day before yesterday")
  contains U+6628 U+65E5 ("yesterday"), so its own branch is never reached.
\<close>

lemma detectMealDate_cases:
  "detectMealDate rt t now =
     (if str_includes (toLowerCase rt t) [0x4ECA, 0x65E5]
           \<or> str_includes (toLowerCase rt t) (ascii ''today'')
        then toISODate now
      else if str_includes (toLowerCase rt t) [0x6628, 0x65E5]
           \<or> str_includes (toLowerCase rt t) (ascii ''yesterday'')
        then toISODate (now - msPerDay)
      else toISODate now)"
  using str_includes_tail [of "toLowerCase rt t" "0x4E00" "[0x6628, 0x65E5]"]
  by (auto simp add: detectMealDate_def Let_def setDate_shift)

lemma civil_2024_03_15: "civil_from_days 19797 = (2024, 3, 15)"
  by code_simp

lemma civil_2024_03_14: "civil_from_days 19796 = (2024, 3, 14)"
  by code_simp

lemma civil_2024_03_13: "civil_from_days 19795 = (2024, 3, 13)"
  by code_simp

lemma civil_2024_02_29: "civil_from_days 19782 = (2024, 2, 29)"
  by code_simp

lemma iso_2024_03_15: "toISODate 1710471600000 = ascii ''2024-03-15''"
  by (simp add: toISODate_def Day_def msPerDay_def civil_2024_03_15 isoYear_def pad4_def
      pad2_def digit_def ascii_def)

lemma iso_2024_03_14: "toISODate 1710385200000 = ascii ''2024-03-14''"
  by (simp add: toISODate_def Day_def msPerDay_def civil_2024_03_14 isoYear_def pad4_def
      pad2_def digit_def ascii_def)

lemma iso_2024_03_13: "toISODate 1710298800000 = ascii ''2024-03-13''"
  by (simp add: toISODate_def Day_def msPerDay_def civil_2024_03_13 isoYear_def pad4_def
      pad2_def digit_def ascii_def)

lemma iso_2024_02_29: "toISODate 1709218800000 = ascii ''2024-02-29''"
  by (simp add: toISODate_def Day_def msPerDay_def civil_2024_02_29 isoYear_def pad4_def
      pad2_def digit_def ascii_def)

text \<open>
  Claim C7, at the failing input. The message U+4E00 U+6628 U+65E5 U+306E U+663C U+98DF
  U+306F U+30B5 U+30E9 U+30C0 ("the day before yesterday's lunch was salad"), read at
  2024-03-15T03:00:00Z, gets the date of yesterday, 2024-03-14; two days before today
  is 2024-03-13.
\<close>

theorem detectMealDate_day_before_yesterday:
  "detectMealDate (runtimeAt 0)
     [0x4E00, 0x6628, 0x65E5, 0x306E, 0x663C, 0x98DF, 0x306F, 0x30B5, 0x30E9, 0x30C0]
     1710471600000 = ascii ''2024-03-14'' \<and>
   toISODate (1710471600000 - 2 * msPerDay) = ascii ''2024-03-13'' \<and>
   ascii ''2024-03-14'' \<noteq> ascii ''2024-03-13''"
proof -
  let ?t = "[0x4E00, 0x6628, 0x65E5, 0x306E, 0x663C, 0x98DF, 0x306F, 0x30B5, 0x30E9, 0x30C0] :: ustring"
  have low: "toLowerCase (runtimeAt 0) ?t = ?t"
    by (simp add: runtimeAt_def lowerBasicLatin_def)
  have no_today: "\<not> str_includes ?t [0x4ECA, 0x65E5]" "\<not> str_includes ?t (ascii ''today'')"
    by (simp_all add: ascii_def)
  have yesterday: "str_includes ?t [0x6628, 0x65E5]"
    by simp
  have "detectMealDate (runtimeAt 0) ?t 1710471600000 = toISODate (1710471600000 - msPerDay)"
    unfolding detectMealDate_cases low using no_today yesterday by simp
  also have "(1710471600000 :: int) - msPerDay = 1710385200000"
    by (simp add: msPerDay_def)
  finally have code: "detectMealDate (runtimeAt 0) ?t 1710471600000 = ascii ''2024-03-14''"
    by (simp only: iso_2024_03_14)
  have "(1710471600000 :: int) - 2 * msPerDay = 1710298800000"
    by (simp add: msPerDay_def)
  then have claim: "toISODate (1710471600000 - 2 * msPerDay) = ascii ''2024-03-13''"
    by (simp only: iso_2024_03_13)
  have differ: "ascii ''2024-03-14'' \<noteq> ascii ''2024-03-13''"
    by (simp add: ascii_def)
  from code claim differ show ?thesis
    by blast
qed

text \<open>
  What \<^verbatim>\<open>detectDateRange\<close> does on every input, with the calls of \<^verbatim>\<open>setDate\<close>
  resolved: the four phrases in their order, the seven days before today for "last
  week", and for "this week" as many days back as the local weekday (Monday 1 to
  Sunday 7) is past 1.
\<close>

lemma detectDateRange_cases:
  "detectDateRange rt t now =
     (if str_includes t [0x3053, 0x308C, 0x307E, 0x3067] \<or> str_includes t [0x5168, 0x671F, 0x9593]
        then Some \<lparr>rangeStart = ascii ''ALL'', rangeEnd = ascii ''ALL''\<rparr>
      else if str_includes t [0x5148, 0x9031]
        then Some \<lparr>rangeStart = toISODate (now - 7 * msPerDay),
                    rangeEnd = toISODate (now - msPerDay)\<rparr>
      else if str_includes t [0x4ECA, 0x9031]
        then Some \<lparr>rangeStart =
                      toISODate (now - ((if getDay rt now = 0 then 7 else getDay rt now) - 1) * msPerDay),
                    rangeEnd = toISODate now\<rparr>
      else if str_includes t [0x4ECA, 0x6708]
        then Some \<lparr>rangeStart = toISODate (newDate rt (getFullYear rt now) (getMonth rt now) 1),
                    rangeEnd = toISODate now\<rparr>
      else None)"
  unfolding detectDateRange_def Let_def setDate_shift by (simp add: msPerDay_def)

text \<open>
  When the local time zone is UTC, the start of "this week" is a Monday, at most six
  days before today.
\<close>

lemma Day_shift: "Day (t - k * msPerDay) = Day t - k"
proof -
  have "(t + (- k) * 86400000) div 86400000 = - k + t div (86400000::int)"
    by (rule div_mult_self1) simp
  then show ?thesis
    by (simp add: Day_def msPerDay_def)
qed

lemma monday_arith:
  fixes x :: int
  shows "(x - ((if (x + 4) mod 7 = 0 then 7 else (x + 4) mod 7) - 1) + 4) mod 7 = 1"
proof -
  define q where "q = (x + 4) div 7"
  define w where "w = (x + 4) mod 7"
  have e: "x + 4 = 7 * q + w"
    unfolding q_def w_def by simp
  have "\<exists>k. x - ((if w = 0 then 7 else w) - 1) + 4 = 7 * k + 1"
  proof (cases "w = 0")
    case True
    with e have "x - ((if w = 0 then 7 else w) - 1) + 4 = 7 * (q - 1) + 1"
      by simp
    then show ?thesis ..
  next
    case False
    with e have "x - ((if w = 0 then 7 else w) - 1) + 4 = 7 * q + 1"
      by simp
    then show ?thesis ..
  qed
  then obtain k where "x - ((if w = 0 then 7 else w) - 1) + 4 = 7 * k + 1" ..
  then have "(x - ((if w = 0 then 7 else w) - 1) + 4) mod 7 = (7 * k + 1) mod 7"
    by (rule arg_cong)
  also have "\<dots> = 1"
    by simp
  finally show ?thesis
    unfolding w_def .
qed

lemma this_week_starts_on_monday:
  fixes rt :: runtime and now :: time
  assumes "utcOffsetMinutes rt = 0"
  defines "day \<equiv> (if getDay rt now = 0 then 7 else getDay rt now)"
  shows "(Day (now - (day - 1) * msPerDay) + 4) mod 7 = 1"
proof -
  have g: "getDay rt now = (Day now + 4) mod 7"
    using assms(1) by (simp add: getDay_def localTime_def)
  show ?thesis
    unfolding Day_shift day_def g by (rule monday_arith)
qed

lemma local_2024_03_15:
  "getFullYear (runtimeAt 540) 1710471600000 = 2024"
  "getMonth (runtimeAt 540) 1710471600000 = 2"
  "getDate (runtimeAt 540) 1710471600000 = 15"
  by (simp_all add: getFullYear_def getMonth_def getDate_def localTime_def runtimeAt_def
      Day_def msPerDay_def civil_2024_03_15)

lemma newDate_2024_03_01_local: "newDate (runtimeAt 540) 2024 2 1 = 1709218800000"
  by code_simp

text \<open>
  Claim C6, at the failing input. The message U+4ECA U+6708 ("this month") is read at
  2024-03-15T03:00:00Z by a process whose local time zone is UTC+9, where it is noon of
  15 March 2024. Midnight of the local 1 March is 2024-02-29T15:00:00Z, and the range
  starts at the UTC date of that instant, 2024-02-29, not at 2024-03-01.
\<close>

theorem detectDateRange_this_month_local_zone:
  "getFullYear (runtimeAt 540) 1710471600000 = 2024 \<and>
   getMonth (runtimeAt 540) 1710471600000 = 2 \<and>
   getDate (runtimeAt 540) 1710471600000 = 15 \<and>
   detectDateRange (runtimeAt 540) [0x4ECA, 0x6708] 1710471600000 =
     Some \<lparr>rangeStart = ascii ''2024-02-29'', rangeEnd = ascii ''2024-03-15''\<rparr> \<and>
   ascii ''2024-02-29'' \<noteq> ascii ''2024-03-01''"
proof -
  have phrases: "\<not> str_includes [0x4ECA, 0x6708] [0x3053, 0x308C, 0x307E, 0x3067]"
    "\<not> str_includes [0x4ECA, 0x6708] [0x5168, 0x671F, 0x9593]"
    "\<not> str_includes [0x4ECA, 0x6708] [0x5148, 0x9031]"
    "\<not> str_includes [0x4ECA, 0x6708] [0x4ECA, 0x9031]"
    "str_includes [0x4ECA, 0x6708] [0x4ECA, 0x6708]"
    by simp_all
  have "detectDateRange (runtimeAt 540) [0x4ECA, 0x6708] 1710471600000 =
      Some \<lparr>rangeStart = toISODate (newDate (runtimeAt 540) 2024 2 1),
            rangeEnd = toISODate 1710471600000\<rparr>"
    unfolding detectDateRange_cases using phrases by (simp add: local_2024_03_15)
  then have code: "detectDateRange (runtimeAt 540) [0x4ECA, 0x6708] 1710471600000 =
      Some \<lparr>rangeStart = ascii ''2024-02-29'', rangeEnd = ascii ''2024-03-15''\<rparr>"
    by (simp only: newDate_2024_03_01_local iso_2024_02_29 iso_2024_03_15)
  have differ: "ascii ''2024-02-29'' \<noteq> ascii ''2024-03-01''"
    by (simp add: ascii_def)
  from code differ local_2024_03_15 show ?thesis
    by blast
qed

text \<open>
  The same message at the same instant in a process whose local time zone is UTC: the
  range starts at 2024-03-01.
\<close>

lemma civil_2024_03_01: "civil_from_days 19783 = (2024, 3, 1)"
  by code_simp

lemma newDate_2024_03_01_utc: "newDate (runtimeAt 0) 2024 2 1 = 1709251200000"
  by code_simp

lemma detectDateRange_this_month_utc:
  "detectDateRange (runtimeAt 0) [0x4ECA, 0x6708] 1710471600000 =
     Some \<lparr>rangeStart = ascii ''2024-03-01'', rangeEnd = ascii ''2024-03-15''\<rparr>"
proof -
  have l: "getFullYear (runtimeAt 0) 1710471600000 = 2024"
    "getMonth (runtimeAt 0) 1710471600000 = 2"
    by (simp_all add: getFullYear_def getMonth_def localTime_def runtimeAt_def Day_def
        msPerDay_def civil_2024_03_15)
  have i: "toISODate 1709251200000 = ascii ''2024-03-01''"
    by (simp add: toISODate_def Day_def msPerDay_def civil_2024_03_01 isoYear_def pad4_def
        pad2_def digit_def ascii_def)
  have "detectDateRange (runtimeAt 0) [0x4ECA, 0x6708] 1710471600000 =
      Some \<lparr>rangeStart = toISODate (newDate (runtimeAt 0) 2024 2 1),
            rangeEnd = toISODate 1710471600000\<rparr>"
    unfolding detectDateRange_cases by (simp add: l)
  then show ?thesis
    by (simp only: newDate_2024_03_01_utc i iso_2024_03_15)
qed

section \<open>Properties of the completion call with retries\<close>







declare retryLoop.simps [simp del]






section \<open>Properties of the webhook\<close>

lemma eventTask_resolves: "fst (eventTask rt w ev) = None"
  by (simp add: eventTask_def split: prod.splits option.splits)

lemma eventTask_catches:
  "eventBody rt w ev = (Some e, tr) \<Longrightarrow> eventTask rt w ev = (None, tr @ [LogEventError e])"
  by (simp add: eventTask_def)

lemma eventTask_passes:
  "eventBody rt w ev = (None, tr) \<Longrightarrow> eventTask rt w ev = (None, tr)"
  by (simp add: eventTask_def)

lemma promiseAll_tasks:
  "promiseAll (map (\<lambda>i. eventTask rt (worlds i) (evs ! i)) is) = None"
  by (simp add: promiseAll_def eventTask_resolves filter_empty_conv[THEN iffD2])

lemma statuses:
  "statusCode ok200 = 200" "statusCode unauthorized401 = 401" "statusCode error500 = 500"
  by (simp_all add: ok200_def unauthorized401_def error500_def)

lemma POST_rejected:
  "signatureHeader req \<noteq> Some (hmacSha256Base64 rt secret (bodyText req))
     \<or> hmacSha256Base64 rt secret (bodyText req) = [] \<Longrightarrow>
   POST rt (Some secret) worlds req =
     \<lparr>response = unauthorized401, boundaryLog = [LogInvalidSignature], eventTraces = []\<rparr>"
  by (auto simp add: POST_def Let_def split: option.splits)

lemma POST_accepted:
  "signatureHeader req = Some (hmacSha256Base64 rt secret (bodyText req)) \<Longrightarrow>
   hmacSha256Base64 rt secret (bodyText req) \<noteq> [] \<Longrightarrow>
   POST rt (Some secret) worlds req =
     (case jsonParse rt (bodyText req) of
        None \<Rightarrow> \<lparr>response = error500, boundaryLog = [LogError SyntaxError], eventTraces = []\<rparr>
      | Some JNull \<Rightarrow> \<lparr>response = error500, boundaryLog = [LogError TypeError], eventTraces = []\<rparr>
      | Some j \<Rightarrow>
          \<lparr>response = ok200, boundaryLog = [],
            eventTraces = map (\<lambda>i. snd (eventTask rt (worlds i) (eventsOf j ! i)))
                            [0..<length (eventsOf j)]\<rparr>)"
  apply (simp add: POST_def Let_def promiseAll_tasks split: option.splits)
  apply (intro allI impI)
  subgoal for j
    by (cases j) (simp_all add: eventsOf_def promiseAll_tasks split: option.splits json.splits)
  done


text \<open>
  Claim C3. Under a secret whose digest text is not empty (the base64 text of a SHA-256
  digest has 44 characters), the request passes the signature check exactly when its
  signature header is the digest text of the body; otherwise, also with no header or an
  empty one, the response is 401 and no event is looked at: there is no trace of any
  event, and the only effect is the console line.
\<close>

theorem webhook_signature_check:
  assumes "hmacSha256Base64 rt secret (bodyText req) \<noteq> []"
  shows
    "(statusCode (response (POST rt (Some secret) worlds req)) \<noteq> 401)
       = (signatureHeader req = Some (hmacSha256Base64 rt secret (bodyText req))) \<and>
     (signatureHeader req \<noteq> Some (hmacSha256Base64 rt secret (bodyText req)) \<longrightarrow>
        POST rt (Some secret) worlds req =
          \<lparr>response = unauthorized401, boundaryLog = [LogInvalidSignature],
            eventTraces = []\<rparr>)"
proof (cases "signatureHeader req = Some (hmacSha256Base64 rt secret (bodyText req))")
  case True
  from POST_accepted [OF True assms, of worlds]
  have "statusCode (response (POST rt (Some secret) worlds req)) \<noteq> 401"
    by (simp add: statuses split: option.splits json.splits)
  with True show ?thesis by simp
next
  case False
  then have "POST rt (Some secret) worlds req =
      \<lparr>response = unauthorized401, boundaryLog = [LogInvalidSignature], eventTraces = []\<rparr>"
    by (intro POST_rejected) simp
  with False show ?thesis by (simp add: statuses)
qed

lemma sampleDigest_nonempty: "sampleDigest \<noteq> []"
  by (simp add: sampleDigest_def ascii_def)

lemma webhookRuntime_digest:
  "hmacSha256Base64 webhookRuntime (ascii ''secret'') sampleBody = sampleDigest"
  by (simp add: webhookRuntime_def)

lemma webhookRuntime_parse:
  "jsonParse webhookRuntime sampleBody = Some (JObj [(ascii ''events'', JArr sampleEvents)])"
  by (simp add: webhookRuntime_def)

theorem webhook_signature_check_witness:
  "hmacSha256Base64 webhookRuntime (ascii ''secret'') sampleBody \<noteq> [] \<and>
   POST webhookRuntime (Some (ascii ''secret'')) (\<lambda>i. quietWorld)
       \<lparr>signatureHeader = None, bodyText = sampleBody\<rparr> =
     \<lparr>response = unauthorized401, boundaryLog = [LogInvalidSignature], eventTraces = []\<rparr> \<and>
   POST webhookRuntime (Some (ascii ''secret'')) (\<lambda>i. quietWorld)
       \<lparr>signatureHeader = Some (ascii ''AAAA''), bodyText = sampleBody\<rparr> =
     \<lparr>response = unauthorized401, boundaryLog = [LogInvalidSignature], eventTraces = []\<rparr> \<and>
   statusCode (response (POST webhookRuntime (Some (ascii ''secret'')) (\<lambda>i. quietWorld)
       \<lparr>signatureHeader = Some sampleDigest, bodyText = sampleBody\<rparr>)) \<noteq> 401"
proof -
  have ne: "hmacSha256Base64 webhookRuntime (ascii ''secret'') sampleBody \<noteq> []"
    by (simp add: webhookRuntime_digest sampleDigest_nonempty)
  have other: "Some (ascii ''AAAA'') \<noteq> Some sampleDigest"
    by (simp add: sampleDigest_def ascii_def)
  from webhook_signature_check
    [where rt = webhookRuntime and secret = "ascii ''secret''" and worlds = "\<lambda>i. quietWorld"
      and req = "\<lparr>signatureHeader = None, bodyText = sampleBody\<rparr>"]
  have a: "POST webhookRuntime (Some (ascii ''secret'')) (\<lambda>i. quietWorld)
       \<lparr>signatureHeader = None, bodyText = sampleBody\<rparr> =
     \<lparr>response = unauthorized401, boundaryLog = [LogInvalidSignature], eventTraces = []\<rparr>"
    using ne by simp
  from webhook_signature_check
    [where rt = webhookRuntime and secret = "ascii ''secret''" and worlds = "\<lambda>i. quietWorld"
      and req = "\<lparr>signatureHeader = Some (ascii ''AAAA''), bodyText = sampleBody\<rparr>"]
  have b: "POST webhookRuntime (Some (ascii ''secret'')) (\<lambda>i. quietWorld)
       \<lparr>signatureHeader = Some (ascii ''AAAA''), bodyText = sampleBody\<rparr> =
     \<lparr>response = unauthorized401, boundaryLog = [LogInvalidSignature], eventTraces = []\<rparr>"
    using ne other by (simp add: webhookRuntime_digest)
  from webhook_signature_check
    [where rt = webhookRuntime and secret = "ascii ''secret''" and worlds = "\<lambda>i. quietWorld"
      and req = "\<lparr>signatureHeader = Some sampleDigest, bodyText = sampleBody\<rparr>"]
  have c: "statusCode (response (POST webhookRuntime (Some (ascii ''secret'')) (\<lambda>i. quietWorld)
       \<lparr>signatureHeader = Some sampleDigest, bodyText = sampleBody\<rparr>)) \<noteq> 401"
    using ne by (simp add: webhookRuntime_digest)
  from ne a b c show ?thesis by blast
qed

lemma dropWhile_all: "list_all P xs \<Longrightarrow> dropWhile P xs = []"
  by (induction xs) simp_all

lemma trim_empty_iff: "(trim s = []) = list_all isWhiteSpace s"
proof
  assume "list_all isWhiteSpace s"
  then show "trim s = []"
    by (simp add: trim_def dropWhile_all)
next
  assume t: "trim s = []"
  show "list_all isWhiteSpace s"
  proof (rule ccontr)
    assume "\<not> list_all isWhiteSpace s"
    then have "dropWhile isWhiteSpace s \<noteq> []"
      by (simp add: list_all_iff dropWhile_eq_Nil_conv)
    then obtain c cs where d: "dropWhile isWhiteSpace s = c # cs"
      by (cases "dropWhile isWhiteSpace s") auto
    then have c: "\<not> isWhiteSpace c"
      using hd_dropWhile [of isWhiteSpace s] by auto
    have "c \<in> set (rev (dropWhile isWhiteSpace s))"
      using d by simp
    with c have "dropWhile isWhiteSpace (rev (dropWhile isWhiteSpace s)) \<noteq> []"
      by (auto simp add: dropWhile_eq_Nil_conv)
    with t show False
      by (simp add: trim_def)
  qed
qed

text \<open>
  Claim C10. A text-message event whose text is empty or consists of white space is
  dropped after the console line with the user id: no reply, no append, no read of the
  spreadsheet and no call of the completion service.
\<close>

theorem blank_text_is_ignored:
  assumes "getProp event (ascii ''type'') = Inr (Some (JStr (ascii ''message'')))"
    and "getProp event (ascii ''message'') = Inr (Some m)"
    and "getProp m (ascii ''type'') = Inr (Some (JStr (ascii ''text'')))"
    and "getProp m (ascii ''text'') = Inr (Some (JStr s))"
    and "list_all isWhiteSpace s"
  shows "trim s = [] \<and>
     eventBody rt w event =
       (None, [LogUserId (optChain (optChain (Some event) (ascii ''source'')) (ascii ''userId''))]) \<and>
     eventTask rt w event =
       (None, [LogUserId (optChain (optChain (Some event) (ascii ''source'')) (ascii ''userId''))])"
proof -
  from assms(5) have t: "trim s = []"
    by (simp add: trim_empty_iff)
  have mt: "messageText (Some m) = Inr []"
    using assms(4) t by (simp add: messageText_def)
  have oc: "optChain (Some m) (ascii ''type'') = Some (JStr (ascii ''text''))"
    using assms(3) by (simp add: optChain_def)
  have b: "eventBody rt w event =
      (None, [LogUserId (optChain (optChain (Some event) (ascii ''source'')) (ascii ''userId''))])"
    using assms(1,2) oc mt by (simp add: eventBody_def Let_def)
  from t b eventTask_passes [OF b] show ?thesis
    by simp
qed


lemma sampleEvent_props:
  "getProp (sampleEvent token txt) (ascii ''type'') = Inr (Some (JStr (ascii ''message'')))"
  "getProp (sampleEvent token txt) (ascii ''message'') =
     Inr (Some (JObj [(ascii ''type'', JStr (ascii ''text'')), (ascii ''text'', txt)]))"
  "optChain (optChain (Some (sampleEvent token txt)) (ascii ''source'')) (ascii ''userId'') =
     Some (JStr (ascii ''U1''))"
  "optChain (Some (sampleEvent token txt)) (ascii ''replyToken'') = Some (JStr (ascii token))"
  by (simp_all add: sampleEvent_def optChain_def ascii_def)

lemma sampleMessage_props:
  "getProp (JObj [(ascii ''type'', JStr (ascii ''text'')), (ascii ''text'', txt)]) (ascii ''type'')
     = Inr (Some (JStr (ascii ''text'')))"
  "getProp (JObj [(ascii ''type'', JStr (ascii ''text'')), (ascii ''text'', txt)]) (ascii ''text'')
     = Inr (Some txt)"
  by (simp_all add: ascii_def)

theorem blank_text_is_ignored_witness:
  "list_all isWhiteSpace [0x0020, 0x3000, 0x0020] \<and>
   eventTask webhookRuntime quietWorld (sampleEvent ''r1'' (JStr [0x0020, 0x3000, 0x0020])) =
     (None, [LogUserId (Some (JStr (ascii ''U1'')))])"
proof -
  have ws: "list_all isWhiteSpace [0x0020, 0x3000, 0x0020]"
    by (simp add: isWhiteSpace_def)
  from blank_text_is_ignored
    [where rt = webhookRuntime and w = quietWorld
      and event = "sampleEvent ''r1'' (JStr [0x0020, 0x3000, 0x0020])",
      OF sampleEvent_props(1) sampleEvent_props(2) sampleMessage_props(1) sampleMessage_props(2) ws]
  show ?thesis
    using ws by (simp add: sampleEvent_props)
qed

text \<open>
  Claim C2. In an authenticated delivery whose body parses to a value other than
  \<^verbatim>\<open>null\<close>, the response is 200 with the body \<^verbatim>\<open>{status:"ok"}\<close>, and the trace of
  each event is that of its own task, which depends on that event and its world only.
  A task never rejects: what the body of its \<^verbatim>\<open>try\<close> block throws is logged after the
  effects that came before. A response 500 occurs only when the secret is missing, the
  body does not parse, or it parses to \<^verbatim>\<open>null\<close>.
\<close>

theorem event_failures_are_isolated:
  "(signatureHeader req = Some (hmacSha256Base64 rt secret (bodyText req)) \<and>
    hmacSha256Base64 rt secret (bodyText req) \<noteq> [] \<and>
    jsonParse rt (bodyText req) = Some j \<and> j \<noteq> JNull \<longrightarrow>
      response (POST rt (Some secret) worlds req) = ok200 \<and>
      eventTraces (POST rt (Some secret) worlds req) =
        map (\<lambda>i. snd (eventTask rt (worlds i) (eventsOf j ! i))) [0..<length (eventsOf j)]) \<and>
   fst (eventTask rt w ev) = None \<and>
   (eventBody rt w ev = (Some e, tr) \<longrightarrow> eventTask rt w ev = (None, tr @ [LogEventError e])) \<and>
   (statusCode (response (POST rt channelSecret worlds req)) = 500 \<longrightarrow>
      channelSecret = None \<or> jsonParse rt (bodyText req) = None
      \<or> jsonParse rt (bodyText req) = Some JNull)"
proof (intro conjI impI)
  assume a: "signatureHeader req = Some (hmacSha256Base64 rt secret (bodyText req)) \<and>
    hmacSha256Base64 rt secret (bodyText req) \<noteq> [] \<and>
    jsonParse rt (bodyText req) = Some j \<and> j \<noteq> JNull"
  then have p: "POST rt (Some secret) worlds req =
      \<lparr>response = ok200, boundaryLog = [],
        eventTraces = map (\<lambda>i. snd (eventTask rt (worlds i) (eventsOf j ! i)))
                        [0..<length (eventsOf j)]\<rparr>"
    using POST_accepted [of req rt secret worlds] by (cases j) simp_all
  show "response (POST rt (Some secret) worlds req) = ok200"
    by (simp add: p)
  show "eventTraces (POST rt (Some secret) worlds req) =
      map (\<lambda>i. snd (eventTask rt (worlds i) (eventsOf j ! i))) [0..<length (eventsOf j)]"
    by (simp add: p)
next
  show "fst (eventTask rt w ev) = None"
    by (rule eventTask_resolves)
next
  assume "eventBody rt w ev = (Some e, tr)"
  then show "eventTask rt w ev = (None, tr @ [LogEventError e])"
    by (rule eventTask_catches)
next
  assume s: "statusCode (response (POST rt channelSecret worlds req)) = 500"
  show "channelSecret = None \<or> jsonParse rt (bodyText req) = None
      \<or> jsonParse rt (bodyText req) = Some JNull"
  proof (cases channelSecret)
    case None
    then show ?thesis by simp
  next
    case (Some secret)
    show ?thesis
    proof (cases "signatureHeader req = Some (hmacSha256Base64 rt secret (bodyText req))
        \<and> hmacSha256Base64 rt secret (bodyText req) \<noteq> []")
      case False
      with POST_rejected [of req rt secret worlds] s Some show ?thesis
        by (auto simp add: statuses)
    next
      case True
      with POST_accepted [of req rt secret worlds] s Some show ?thesis
        by (auto simp add: statuses split: option.splits json.splits)
    qed
  qed
qed

lemma webhookRuntime_fields:
  "toLowerCase webhookRuntime = lowerBasicLatin"
  "utcOffsetMinutes webhookRuntime = 0"
  by (simp_all add: webhookRuntime_def runtimeAt_def)

lemma quietWorld_fields:
  "clock quietWorld = 1710471600000"
  "logClock quietWorld = 1710471600000"
  "appendResult quietWorld sh = None"
  by (simp_all add: quietWorld_def)

lemma time_03_00: "toTimeHHMM webhookRuntime 1710471600000 = ascii ''03:00''"
  by (simp add: toTimeHHMM_def localTime_def webhookRuntime_fields TimeWithinDay_def
      msPerDay_def pad2_def digit_def ascii_def)

lemma task0:
  "eventTask webhookRuntime quietWorld (sampleEvent ''r0'' (JNum 5)) =
     (None, [LogUserId (Some (JStr (ascii ''U1''))), LogEventError TypeError])"
proof -
  have mt: "messageText (Some (JObj [(ascii ''type'', JStr (ascii ''text'')), (ascii ''text'', JNum 5)]))
      = Inl TypeError"
    by (simp add: messageText_def ascii_def)
  have oc: "optChain (Some (JObj [(ascii ''type'', JStr (ascii ''text'')), (ascii ''text'', JNum 5)]))
      (ascii ''type'') = Some (JStr (ascii ''text''))"
    by (simp add: optChain_def sampleMessage_props)
  have "eventBody webhookRuntime quietWorld (sampleEvent ''r0'' (JNum 5)) =
      (Some TypeError, [LogUserId (Some (JStr (ascii ''U1'')))])"
    by (simp add: eventBody_def sampleEvent_props mt oc)
  then show ?thesis
    by (simp add: eventTask_def)
qed

lemma task1:
  "eventTask webhookRuntime quietWorld (sampleEvent ''r1'' (JStr [0x0020, 0x3000, 0x0020])) =
     (None, [LogUserId (Some (JStr (ascii ''U1'')))])"
proof -
  let ?m = "JObj [(ascii ''type'', JStr (ascii ''text'')),
                  (ascii ''text'', JStr [0x0020, 0x3000, 0x0020])]"
  have "trim [0x0020, 0x3000, 0x0020] = []"
    by (simp add: trim_def isWhiteSpace_def)
  then have mt: "messageText (Some ?m) = Inr []"
    by (simp add: messageText_def ascii_def)
  have oc: "optChain (Some ?m) (ascii ''type'') = Some (JStr (ascii ''text''))"
    by (simp add: optChain_def sampleMessage_props)
  have "eventBody webhookRuntime quietWorld (sampleEvent ''r1'' (JStr [0x0020, 0x3000, 0x0020])) =
      (None, [LogUserId (Some (JStr (ascii ''U1'')))])"
    by (simp add: eventBody_def sampleEvent_props mt oc)
  then show ?thesis
    by (simp add: eventTask_def)
qed

lemma ran_text:
  "trim [0x0033, 0x0030, 0x5206, 0x8D70, 0x3063, 0x305F] = [0x0033, 0x0030, 0x5206, 0x8D70, 0x3063, 0x305F]"
  "lowerBasicLatin [0x0033, 0x0030, 0x5206, 0x8D70, 0x3063, 0x305F] = [0x0033, 0x0030, 0x5206, 0x8D70, 0x3063, 0x305F]"
  by (simp_all add: trim_def isWhiteSpace_def lowerBasicLatin_def)

lemma ran_category:
  "detectLogCategory webhookRuntime [0x0033, 0x0030, 0x5206, 0x8D70, 0x3063, 0x305F] = Some Exercise"
  by (simp add: detectLogCategory_def detectMealType_def truthy_def webhookRuntime_fields
      ran_text ascii_def)

lemma ran_range:
  "detectDateRange webhookRuntime [0x0033, 0x0030, 0x5206, 0x8D70, 0x3063, 0x305F] t = None"
  by (simp add: detectDateRange_cases)

lemma task2:
  "eventTask webhookRuntime quietWorld
       (sampleEvent ''r2'' (JStr [0x0033, 0x0030, 0x5206, 0x8D70, 0x3063, 0x305F])) =
     (None, [LogUserId (Some (JStr (ascii ''U1''))),
             Append ExerciseLog
               [CStr (ascii ''2024-03-15''), CStr (ascii ''03:00''),
                CStr [0x0033, 0x0030, 0x5206, 0x8D70, 0x3063, 0x305F]],
             Reply (Some (JStr (ascii ''r2'')))
               (exerciseRecordedText @ [0x0033, 0x0030, 0x5206, 0x8D70, 0x3063, 0x305F])])"
proof -
  let ?t = "[0x0033, 0x0030, 0x5206, 0x8D70, 0x3063, 0x305F] :: ustring"
  let ?m = "JObj [(ascii ''type'', JStr (ascii ''text'')), (ascii ''text'', JStr ?t)]"
  have mt: "messageText (Some ?m) = Inr ?t"
    using ran_text(1) by (simp add: messageText_def ascii_def)
  have oc: "optChain (Some ?m) (ascii ''type'') = Some (JStr (ascii ''text''))"
    by (simp add: optChain_def sampleMessage_props)
  have h: "handleText webhookRuntime quietWorld (Some (JStr (ascii ''r2''))) ?t =
      (None, [Append ExerciseLog
               [CStr (ascii ''2024-03-15''), CStr (ascii ''03:00''), CStr ?t],
              Reply (Some (JStr (ascii ''r2''))) (exerciseRecordedText @ ?t)])"
    by (simp add: handleText_def ran_category ran_range logOrChat_def simpleLog_def
        quietWorld_fields iso_2024_03_15 time_03_00 replyToLine_def)
  have "eventBody webhookRuntime quietWorld (sampleEvent ''r2'' (JStr ?t)) =
      (None, [LogUserId (Some (JStr (ascii ''U1''))),
             Append ExerciseLog
               [CStr (ascii ''2024-03-15''), CStr (ascii ''03:00''), CStr ?t],
             Reply (Some (JStr (ascii ''r2''))) (exerciseRecordedText @ ?t)])"
    by (simp add: eventBody_def sampleEvent_props mt oc h)
  then show ?thesis
    by (simp add: eventTask_def)
qed

text \<open>
  The sample delivery: the first event throws a \<^verbatim>\<open>TypeError\<close> (its text is a number),
  which is logged; the second is dropped; the third is logged as exercise and answered.
  The response is 200.
\<close>

theorem event_failures_are_isolated_witness:
  "response (POST webhookRuntime (Some (ascii ''secret'')) (\<lambda>i. quietWorld)
       \<lparr>signatureHeader = Some sampleDigest, bodyText = sampleBody\<rparr>) = ok200 \<and>
   eventTraces (POST webhookRuntime (Some (ascii ''secret'')) (\<lambda>i. quietWorld)
       \<lparr>signatureHeader = Some sampleDigest, bodyText = sampleBody\<rparr>) =
     [[LogUserId (Some (JStr (ascii ''U1''))), LogEventError TypeError],
      [LogUserId (Some (JStr (ascii ''U1'')))],
      [LogUserId (Some (JStr (ascii ''U1''))),
       Append ExerciseLog
         [CStr (ascii ''2024-03-15''), CStr (ascii ''03:00''),
          CStr [0x0033, 0x0030, 0x5206, 0x8D70, 0x3063, 0x305F]],
       Reply (Some (JStr (ascii ''r2'')))
         (exerciseRecordedText @ [0x0033, 0x0030, 0x5206, 0x8D70, 0x3063, 0x305F])]]"
proof -
  let ?j = "JObj [(ascii ''events'', JArr sampleEvents)]"
  let ?req = "\<lparr>signatureHeader = Some sampleDigest, bodyText = sampleBody\<rparr>"
  have ev: "eventsOf ?j = sampleEvents"
    by (simp add: eventsOf_def)
  have three: "[0..<length sampleEvents] = [0, 1, 2]"
    by (simp add: sampleEvents_def upt_rec)
  have nth: "sampleEvents ! 0 = sampleEvent ''r0'' (JNum 5)"
    "sampleEvents ! Suc 0 = sampleEvent ''r1'' (JStr [0x0020, 0x3000, 0x0020])"
    "sampleEvents ! 2 = sampleEvent ''r2'' (JStr [0x0033, 0x0030, 0x5206, 0x8D70, 0x3063, 0x305F])"
    by (simp_all add: sampleEvents_def)
  have pre: "signatureHeader ?req = Some (hmacSha256Base64 webhookRuntime (ascii ''secret'') (bodyText ?req)) \<and>
      hmacSha256Base64 webhookRuntime (ascii ''secret'') (bodyText ?req) \<noteq> [] \<and>
      jsonParse webhookRuntime (bodyText ?req) = Some ?j \<and> ?j \<noteq> JNull"
    by (simp add: webhookRuntime_digest webhookRuntime_parse sampleDigest_nonempty)
  from event_failures_are_isolated
    [where rt = webhookRuntime and secret = "ascii ''secret''" and req = ?req and j = ?j
      and worlds = "\<lambda>i. quietWorld"] pre
  have "response (POST webhookRuntime (Some (ascii ''secret'')) (\<lambda>i. quietWorld) ?req) = ok200 \<and>
      eventTraces (POST webhookRuntime (Some (ascii ''secret'')) (\<lambda>i. quietWorld) ?req) =
        map (\<lambda>i. snd (eventTask webhookRuntime quietWorld (eventsOf ?j ! i)))
          [0..<length (eventsOf ?j)]"
    by blast
  then show ?thesis
    unfolding ev three by (simp add: nth task0 task1 task2)
qed

section \<open>Properties of the summary\<close>




























end
